theory Spec2Isabelle
  imports Main "HOL-Library.Sublist" "HOL-Library.List_Lexorder" "HOL-Library.Char_ord"
    "HOL-Library.Multiset"
begin

section \<open>Python strings\<close>

text \<open>
  A Python \<open>str\<close> is modelled as a \<open>string\<close> whose characters are the code points
  below 256 (ASCII and Latin-1); the functions below follow what CPython does on
  these code points.
\<close>

text \<open>\<open>str.isspace\<close> on one character; it is also the class \<open>\s\<close> of \<open>re\<close>.\<close>

definition py_isspace :: "char \<Rightarrow> bool" where
  "py_isspace c = (of_char c \<in> {9, 10, 11, 12, 13, 28, 29, 30, 31, 32, 133, 160 :: nat})"

definition py_lower_char :: "char \<Rightarrow> char" where
  "py_lower_char c =
     (let n = of_char c :: nat
      in if (65 \<le> n \<and> n \<le> 90) \<or> (192 \<le> n \<and> n \<le> 222 \<and> n \<noteq> 215)
         then char_of (n + 32) else c)"

definition py_upper_char :: "char \<Rightarrow> char" where
  "py_upper_char c =
     (let n = of_char c :: nat
      in if 97 \<le> n \<and> n \<le> 122 then char_of (n - 32) else c)"

text \<open>\<open>s.lower()\<close>\<close>

definition py_lower :: "string \<Rightarrow> string" where
  "py_lower s = map py_lower_char s"

text \<open>\<open>s.strip()\<close>\<close>

definition py_strip :: "string \<Rightarrow> string" where
  "py_strip s = rev (dropWhile py_isspace (rev (dropWhile py_isspace s)))"

text \<open>\<open>pat in s\<close> for strings: \<open>pat\<close> occurs in \<open>s\<close> as a contiguous block.\<close>

fun py_in :: "string \<Rightarrow> string \<Rightarrow> bool" where
  "py_in pat [] = (pat = [])"
| "py_in pat (c # s) = (prefix pat (c # s) \<or> py_in pat s)"

text \<open>\<open>sep.join(xs)\<close>\<close>

fun py_join :: "string \<Rightarrow> string list \<Rightarrow> string" where
  "py_join sep [] = []"
| "py_join sep [x] = x"
| "py_join sep (x # y # xs) = x @ sep @ py_join sep (y # xs)"

text \<open>\<open>s.split(c)\<close> for a separator of one character: never the empty list.\<close>

fun py_split :: "char \<Rightarrow> string \<Rightarrow> string list" where
  "py_split c [] = [[]]"
| "py_split c (x # s) =
     (if x = c then [] # py_split c s
      else (case py_split c s of
              [] \<Rightarrow> [[x]]
            | seg # segs \<Rightarrow> (x # seg) # segs))"

text \<open>\<open>s.split(c)[0]\<close>; the index is in range because the list is never empty.\<close>

definition split_first :: "char \<Rightarrow> string \<Rightarrow> string" where
  "split_first c s = (case py_split c s of [] \<Rightarrow> [] | seg # _ \<Rightarrow> seg)"

text \<open>\<open>s.replace(a, b)\<close> for single characters.\<close>

definition py_replace :: "char \<Rightarrow> char \<Rightarrow> string \<Rightarrow> string" where
  "py_replace a b s = map (\<lambda>c. if c = a then b else c) s"

text \<open>
  \<open>s.title()\<close> on ASCII text: a letter that follows a letter is lower-cased, any
  other letter is upper-cased.
\<close>

definition is_ascii_letter :: "char \<Rightarrow> bool" where
  "is_ascii_letter c =
     (let n = of_char c :: nat in (65 \<le> n \<and> n \<le> 90) \<or> (97 \<le> n \<and> n \<le> 122))"

fun title_from :: "bool \<Rightarrow> string \<Rightarrow> string" where
  "title_from prev_cased [] = []"
| "title_from prev_cased (c # s) =
     (if prev_cased then py_lower_char c else py_upper_char c)
       # title_from (is_ascii_letter c) s"

definition py_title :: "string \<Rightarrow> string" where
  "py_title s = title_from False s"

text \<open>\<open>str(n)\<close> for an integer.\<close>

definition digit_char :: "nat \<Rightarrow> char" where
  "digit_char d = char_of (48 + d)"

fun str_nat :: "nat \<Rightarrow> string" where
  "str_nat n = (if n < 10 then [digit_char n] else str_nat (n div 10) @ [digit_char (n mod 10)])"

definition str_int :: "int \<Rightarrow> string" where
  "str_int i = (if i < 0 then CHR ''-'' # str_nat (nat (- i)) else str_nat (nat i))"

text \<open>The exceptions that the modelled code can raise or let through.\<close>

datatype py_error =
    ValueError string
  | SyntaxError
  | RecursionError
  | MemoryError

section \<open>Notebook parser (\<open>src/converter/notebook_parser.py\<close>)\<close>

text \<open>
  The decoded JSON document, in the shape the parser reads it: every key that the
  code fetches with \<open>.get(key, default)\<close> is an optional field. Values that the code never
  looks into (cell metadata, outputs, other notebook metadata) have the opaque type \<open>'j\<close>.
\<close>

datatype source_field = SourceString string | SourceFragments "string list"

record 'j raw_cell =
  raw_cell_type :: "string option"
  raw_source :: "source_field option"
  raw_metadata :: "(string \<times> 'j) list option"
  raw_outputs :: "'j list option"

record kernelspec =
  ks_name :: "string option"
  ks_display_name :: "string option"
  ks_language :: "string option"

record language_info =
  li_name :: "string option"
  li_version :: "string option"

record 'j nb_metadata =
  md_kernelspec :: "kernelspec option"
  md_language_info :: "language_info option"
  md_other :: "(string \<times> 'j) list"

record 'j notebook_content =
  nbformat :: "int option"
  nb_meta :: "'j nb_metadata option"
  nb_cells :: "'j raw_cell list option"

record 'j parsed_cell =
  cell_type :: string
  source :: string
  metadata :: "(string \<times> 'j) list"
  outputs :: "'j list"
  category :: string

record 'j parsed_notebook =
  pn_metadata :: "'j nb_metadata"
  pn_cells :: "'j parsed_cell list"
  pn_kernel_info :: "(string \<times> string) list"

text \<open>\<open>d.get(key, default)\<close>\<close>

definition get_default :: "'a option \<Rightarrow> 'a \<Rightarrow> 'a" where
  "get_default v d = (case v of None \<Rightarrow> d | Some x \<Rightarrow> x)"

definition supported_versions :: "int list" where
  "supported_versions = [4, 5]"

text \<open>\<open>any(p in text for p in patterns)\<close>\<close>

definition any_in :: "string list \<Rightarrow> string \<Rightarrow> bool" where
  "any_in patterns text = list_ex (\<lambda>p. py_in p text) patterns"

definition categorize_code_cell :: "string \<Rightarrow> string" where
  "categorize_code_cell src =
     (if py_strip src = [] then ''empty''
      else let source_lower = py_lower src in
        if any_in [''import'', ''from ''] source_lower then ''imports''
        else if any_in [''def '', ''class '', ''function''] source_lower then ''function_definitions''
        else if any_in [''model'', ''train'', ''fit'', ''compile''] source_lower then ''model_training''
        else if any_in [''plot'', ''visualize'', ''plt.'', ''seaborn''] source_lower then ''visualization''
        else if any_in [''preprocess'', ''clean'', ''transform''] source_lower then ''data_processing''
        else if any_in [''test'', ''assert'', ''check''] source_lower then ''testing''
        else ''general_code'')"

definition categorize_markdown_cell :: "string \<Rightarrow> string" where
  "categorize_markdown_cell src =
     (if py_strip src = [] then ''empty''
      else let source_lower = py_lower src in
        if any_in [''# introduction'', ''# overview'', ''# abstract''] source_lower then ''introduction''
        else if any_in [''# setup'', ''# installation'', ''# requirements''] source_lower then ''setup''
        else if any_in [''# data'', ''# dataset'', ''# loading''] source_lower then ''data_description''
        else if any_in [''# method'', ''# approach'', ''# methodology''] source_lower then ''methodology''
        else if any_in [''# result'', ''# output'', ''# finding''] source_lower then ''results''
        else if any_in [''# conclusion'', ''# summary'', ''# discussion''] source_lower then ''conclusion''
        else if prefix ''#'' source_lower \<or> py_in ''##'' source_lower then ''section_header''
        else ''documentation'')"

text \<open>
  The source of a cell, joined when it is a list of fragments (\<open>''.join(source_parts)\<close>)
  and taken as it is when it is a string; an absent \<open>source\<close> is the empty list.
\<close>

definition normalize_source :: "source_field option \<Rightarrow> string" where
  "normalize_source field =
     (case get_default field (SourceFragments []) of
        SourceFragments source_parts \<Rightarrow> py_join [] source_parts
      | SourceString source_parts \<Rightarrow> source_parts)"

definition extract_cell :: "'j raw_cell \<Rightarrow> 'j parsed_cell" where
  "extract_cell cell =
     (let ctype = get_default (raw_cell_type cell) ''code'';
          src = normalize_source (raw_source cell)
      in \<lparr> cell_type = ctype,
           source = src,
           metadata = get_default (raw_metadata cell) [],
           outputs = (if ctype = ''code'' then get_default (raw_outputs cell) [] else []),
           category =
             (if ctype = ''code'' then categorize_code_cell src
              else if ctype = ''markdown'' then categorize_markdown_cell src
              else ''other'') \<rparr>)"

text \<open>The loop of \<open>_extract_cells\<close> appends one parsed cell for each raw cell.\<close>

fun extract_cells :: "'j raw_cell list \<Rightarrow> 'j parsed_cell list" where
  "extract_cells [] = []"
| "extract_cells (cell # rest) = extract_cell cell # extract_cells rest"

definition extract_kernel_info :: "'j nb_metadata \<Rightarrow> (string \<times> string) list" where
  "extract_kernel_info md =
     (case md_kernelspec md of
        Some ks \<Rightarrow>
          [(''name'', get_default (ks_name ks) ''unknown''),
           (''display_name'', get_default (ks_display_name ks) ''unknown''),
           (''language'', get_default (ks_language ks) ''python'')]
      | None \<Rightarrow>
          (case md_language_info md of
             Some li \<Rightarrow>
               [(''name'', get_default (li_name li) ''python''),
                (''version'', get_default (li_version li) ''unknown'')]
           | None \<Rightarrow> []))"

definition empty_metadata :: "'j nb_metadata" where
  "empty_metadata = \<lparr> md_kernelspec = None, md_language_info = None, md_other = [] \<rparr>"

text \<open>
  What \<open>open\<close> and \<open>json.load\<close> give: an exception with its text, or the decoded document.
\<close>

datatype 'j file_read = Unreadable string | Decoded "'j notebook_content"

definition parse_notebook :: "'j file_read \<Rightarrow> py_error + 'j parsed_notebook" where
  "parse_notebook file =
     (case file of
        Unreadable e \<Rightarrow> Inl (ValueError (''Failed to read notebook file: '' @ e))
      | Decoded notebook_content \<Rightarrow>
          (let nb_version = get_default (nbformat notebook_content) 4
           in if nb_version \<notin> set supported_versions
              then Inl (ValueError (''Unsupported notebook version: '' @ str_int nb_version))
              else Inr \<lparr> pn_metadata = get_default (nb_meta notebook_content) empty_metadata,
                         pn_cells = extract_cells (get_default (nb_cells notebook_content) []),
                         pn_kernel_info =
                           extract_kernel_info (get_default (nb_meta notebook_content) empty_metadata) \<rparr>))"

section \<open>The regular expressions of the fallback scanner\<close>

text \<open>
  The two patterns of \<open>_extract_imports_regex\<close> use an anchor, literal text, greedy
  repetitions of a character class and one capturing group around such a repetition.
  The matcher below is the backtracking search of \<open>re\<close> for these constructs: a
  repetition first takes as many characters as it can and gives them back one at a
  time while the rest of the pattern fails.
\<close>

datatype rx =
    Bol
  | Lit string
  | Star "char \<Rightarrow> bool"
  | Plus "char \<Rightarrow> bool"
  | Group_Plus "char \<Rightarrow> bool"

text \<open>
  \<open>backoff try lo n\<close> tries the counts \<open>n\<close>, \<open>n - 1\<close>, ... down to \<open>lo\<close> and keeps
  the first success.
\<close>

fun backoff :: "(nat \<Rightarrow> 'a option) \<Rightarrow> nat \<Rightarrow> nat \<Rightarrow> 'a option" where
  "backoff try lo 0 = (if lo = 0 then try 0 else None)"
| "backoff try lo (Suc n) =
     (if Suc n < lo then None
      else (case try (Suc n) of Some r \<Rightarrow> Some r | None \<Rightarrow> backoff try lo n))"

text \<open>The character before the position reached after \<open>n\<close> more characters of \<open>s\<close>.\<close>

definition prev_after :: "nat \<Rightarrow> char option \<Rightarrow> string \<Rightarrow> char option" where
  "prev_after n prev s = (if n = 0 \<or> length s < n then prev else Some (s ! (n - 1)))"

text \<open>
  \<open>rx_match r prev s\<close> matches the pattern \<open>r\<close> at the start of \<open>s\<close>, where \<open>prev\<close> is
  the character before \<open>s\<close> in the whole text (\<open>None\<close> at its start). A match gives
  the captured groups, the last character before the end of the match and the text
  after it. Under \<open>re.MULTILINE\<close> the anchor holds at the start of the text and after
  each newline.
\<close>

fun rx_match :: "rx list \<Rightarrow> char option \<Rightarrow> string \<Rightarrow> (string list \<times> char option \<times> string) option" where
  "rx_match [] prev s = Some ([], prev, s)"
| "rx_match (Bol # r) prev s =
     (if prev = None \<or> prev = Some CHR 0x0A then rx_match r prev s else None)"
| "rx_match (Lit l # r) prev s =
     (if prefix l s then rx_match r (prev_after (length l) prev s) (drop (length l) s) else None)"
| "rx_match (Star cls # r) prev s =
     backoff (\<lambda>n. rx_match r (prev_after n prev s) (drop n s)) 0 (length (takeWhile cls s))"
| "rx_match (Plus cls # r) prev s =
     backoff (\<lambda>n. rx_match r (prev_after n prev s) (drop n s)) 1 (length (takeWhile cls s))"
| "rx_match (Group_Plus cls # r) prev s =
     backoff (\<lambda>n. map_option (\<lambda>(groups, after). (take n s # groups, after))
                     (rx_match r (prev_after n prev s) (drop n s)))
       1 (length (takeWhile cls s))"

text \<open>
  \<open>re.findall\<close>: the matches from left to right, without overlap; each gives its
  group, or the matched text when the pattern has no group. After a match the search
  goes on where the match ended (one character further after an empty match).
\<close>

function findall :: "rx list \<Rightarrow> char option \<Rightarrow> string \<Rightarrow> string list" where
  "findall p prev s =
     (case rx_match p prev s of
        Some (groups, prev', rest) \<Rightarrow>
          (if length rest < length s
           then (case groups of [] \<Rightarrow> take (length s - length rest) s | g # _ \<Rightarrow> g)
                  # findall p prev' rest
           else (case s of
                   [] \<Rightarrow> [case groups of [] \<Rightarrow> [] | g # _ \<Rightarrow> g]
                 | c # s' \<Rightarrow> (case groups of [] \<Rightarrow> [] | g # _ \<Rightarrow> g) # findall p (Some c) s'))
      | None \<Rightarrow> (case s of [] \<Rightarrow> [] | c # s' \<Rightarrow> findall p (Some c) s'))"
  by pat_completeness auto
termination
  by (relation "measure (\<lambda>(p, prev, s). length s)") auto

declare findall.simps [simp del]

text \<open>\<^verbatim>\<open>^\s*import\s+([^\n#]+)\<close>\<close>

definition import_pattern :: "rx list" where
  "import_pattern =
     [Bol, Star py_isspace, Lit ''import'', Plus py_isspace,
      Group_Plus (\<lambda>c. c \<noteq> CHR 0x0A \<and> c \<noteq> CHR ''#'')]"

text \<open>\<^verbatim>\<open>^\s*from\s+([^\s\n#]+)\s+import\<close>\<close>

definition from_pattern :: "rx list" where
  "from_pattern =
     [Bol, Star py_isspace, Lit ''from'', Plus py_isspace,
      Group_Plus (\<lambda>c. \<not> py_isspace c \<and> c \<noteq> CHR 0x0A \<and> c \<noteq> CHR ''#''),
      Plus py_isspace, Lit ''import'']"

section \<open>Dependency analyzer (\<open>src/converter/dependency_analyzer.py\<close>)\<close>

text \<open>
  The syntax tree of \<open>ast\<close>, as far as the walk looks at it: an \<open>Import\<close> node with its
  aliases, an \<open>ImportFrom\<close> node with its module (absent for \<open>from . import x\<close>), aliases
  and level, and any other node with its child nodes.
\<close>

datatype import_alias = Alias (alias_name: string) (alias_asname: "string option")

datatype node =
    Import "import_alias list"
  | ImportFrom "string option" "import_alias list" nat
  | Node "node list"

text \<open>
  \<open>ast.parse\<close> is not part of the repository: it is a parameter of the model, which
  gives for a source text the tree or the exception raised.
\<close>

datatype parse_result = Parsed node | Raised py_error

type_synonym parser = "string \<Rightarrow> parse_result"

text \<open>\<open>ast.walk\<close>: the node and all its descendants.\<close>

fun walk :: "node \<Rightarrow> node list" where
  "walk (Node children) = Node children # concat (map walk children)"
| "walk (Import names) = [Import names]"
| "walk (ImportFrom module names level) = [ImportFrom module names level]"

text \<open>What the body of the walk loop adds to \<open>imports\<close> for one node.\<close>

fun node_imports :: "node \<Rightarrow> string list" where
  "node_imports (Import names) = map (\<lambda>a. split_first CHR ''.'' (alias_name a)) names"
| "node_imports (ImportFrom module names level) =
     (case module of
        None \<Rightarrow> []
      | Some m \<Rightarrow> (if m = [] then [] else [split_first CHR ''.'' m]))"
| "node_imports (Node children) = []"

definition regex_import_names :: "string \<Rightarrow> string list" where
  "regex_import_names code =
     concat (map (\<lambda>match. map (\<lambda>lib. split_first CHR ''.'' (py_strip lib)) (py_split CHR '','' match))
                 (findall import_pattern None code))"

definition regex_from_names :: "string \<Rightarrow> string list" where
  "regex_from_names code = map (split_first CHR ''.'') (findall from_pattern None code)"

definition extract_imports_regex :: "string \<Rightarrow> string set" where
  "extract_imports_regex code = set (regex_import_names code) \<union> set (regex_from_names code)"

text \<open>Only \<open>SyntaxError\<close> is caught; any other exception of the parser leaves the method.\<close>

definition extract_imports :: "parser \<Rightarrow> string \<Rightarrow> py_error + string set" where
  "extract_imports parse code =
     (case parse code of
        Parsed tree \<Rightarrow> Inr (set (concat (map node_imports (walk tree))))
      | Raised SyntaxError \<Rightarrow> Inr (extract_imports_regex code)
      | Raised e \<Rightarrow> Inl e)"

text \<open>
  The class refers to four predicate methods (\<open>_is_standard_lib\<close>, \<open>_is_data_science_lib\<close>,
  \<open>_is_ml_framework\<close>, \<open>_is_visualization_lib\<close>) that no source file defines: they are
  parameters of the model.
\<close>

record helper_predicates =
  is_standard_lib :: "string \<Rightarrow> bool"
  is_data_science_lib :: "string \<Rightarrow> bool"
  is_ml_framework :: "string \<Rightarrow> bool"
  is_visualization_lib :: "string \<Rightarrow> bool"

definition import_patterns :: "helper_predicates \<Rightarrow> (string \<times> (string \<Rightarrow> bool)) list" where
  "import_patterns H =
     [(''standard_lib'', is_standard_lib H),
      (''data_science'', is_data_science_lib H),
      (''ml_frameworks'', is_ml_framework H),
      (''visualization'', is_visualization_lib H)]"

text \<open>
  Modelled from the spec: \<open>_generate_requirements\<close>, which \<open>analyze_dependencies\<close> calls and no
  source file defines. The specification says that the requirements are the aggregated
  identifier set rendered as a flat list with no version pins; it leaves the order open,
  and the model lists the identifiers in increasing order.
\<close>

definition generate_requirements :: "string set \<Rightarrow> string list" where
  "generate_requirements all_imports = sorted_list_of_set all_imports"

record dependency_report =
  all_dependencies :: "string set"
  categorized :: "(string \<times> string set) list"
  requirements :: "string list"

text \<open>The first loop of \<open>analyze_dependencies\<close>, with \<open>all_imports\<close> as accumulator.\<close>

fun collect_imports :: "parser \<Rightarrow> 'j parsed_cell list \<Rightarrow> string set \<Rightarrow> py_error + string set" where
  "collect_imports parse [] all_imports = Inr all_imports"
| "collect_imports parse (cell # rest) all_imports =
     (if cell_type cell = ''code''
      then (case extract_imports parse (source cell) of
              Inl e \<Rightarrow> Inl e
            | Inr imports \<Rightarrow> collect_imports parse rest (all_imports \<union> imports))
      else collect_imports parse rest all_imports)"

definition analyze_dependencies ::
  "helper_predicates \<Rightarrow> parser \<Rightarrow> 'j parsed_cell list \<Rightarrow> py_error + dependency_report" where
  "analyze_dependencies H parse notebook_cells =
     (case collect_imports parse notebook_cells {} of
        Inl e \<Rightarrow> Inl e
      | Inr all_imports \<Rightarrow>
          Inr \<lparr> all_dependencies = all_imports,
                categorized =
                  map (\<lambda>(cat, check_func). (cat, {lib \<in> all_imports. check_func lib}))
                      (import_patterns H),
                requirements = generate_requirements all_imports \<rparr>)"

section \<open>Code generator (\<open>src/converter/code_generator.py\<close>)\<close>

text \<open>
  \<open>_categorize_cells\<close> groups the cells in a dictionary from category to cell list; a
  Python dictionary keeps its keys in insertion order, so it is an association list
  with distinct keys. Every cell that the parser produces has a category, so the
  default of \<open>cell.get('category', 'other')\<close> is never used.
\<close>

definition categorize_step ::
  "(string \<times> 'j parsed_cell list) list \<Rightarrow> 'j parsed_cell \<Rightarrow> (string \<times> 'j parsed_cell list) list" where
  "categorize_step categorized_so_far cell =
     (let cat = category cell;
          d = (if cat \<notin> set (map fst categorized_so_far)
               then categorized_so_far @ [(cat, [])] else categorized_so_far)
      in map (\<lambda>(k, cs). if k = cat then (k, cs @ [cell]) else (k, cs)) d)"

definition categorize_cells :: "'j parsed_cell list \<Rightarrow> (string \<times> 'j parsed_cell list) list" where
  "categorize_cells cells = foldl categorize_step [] cells"

definition execution_categories :: "string list" where
  "execution_categories = [''data_processing'', ''model_training'', ''visualization'', ''general_code'']"

text \<open>\<^verbatim>\<open>'\n'.join(f"    {line}" for line in cell['source'].split('\n'))\<close>\<close>

definition indent_code :: "string \<Rightarrow> string" where
  "indent_code src = py_join [CHR 0x0A] (map (\<lambda>line. ''    '' @ line) (py_split CHR 0x0A src))"

text \<open>\<^verbatim>\<open>f"    # {category.replace('_', ' ').title()}"\<close>\<close>

definition category_label :: "string \<Rightarrow> string" where
  "category_label cat = ''    # '' @ py_title (py_replace CHR ''_'' CHR '' '' cat)"

text \<open>One round of the loop over \<open>execution_categories\<close>.\<close>

definition add_category ::
  "(string \<times> 'j parsed_cell list) list \<Rightarrow> string list \<Rightarrow> string \<Rightarrow> string list" where
  "add_category categorized_cells lines cat =
     (case map_of categorized_cells cat of
        None \<Rightarrow> lines
      | Some cells \<Rightarrow> lines @ [category_label cat] @ map (\<lambda>cell. indent_code (source cell)) cells @ [[]])"

definition main_header :: "string list" where
  "main_header =
     [''#!/usr/bin/env python3'',
      [CHR 0x22, CHR 0x22, CHR 0x22],
      ''Main execution script generated from Jupyter notebook'',
      [CHR 0x22, CHR 0x22, CHR 0x22],
      [CHR 0x0A]]"

definition main_def :: "string list" where
  "main_def =
     [''def main():'',
      ''    '' @ [CHR 0x22, CHR 0x22, CHR 0x22] @ ''Main execution function'' @ [CHR 0x22, CHR 0x22, CHR 0x22]]"

definition main_guard :: "string list" where
  "main_guard =
     [CHR 0x0A # ''if __name__ == '' @ [CHR 0x22] @ ''__main__'' @ [CHR 0x22] @ '':'',
      ''    main()'']"

definition generate_main_script :: "(string \<times> 'j parsed_cell list) list \<Rightarrow> string" where
  "generate_main_script categorized_cells =
     (let lines0 = main_header;
          lines1 = (case map_of categorized_cells ''imports'' of
                      None \<Rightarrow> lines0
                    | Some cells \<Rightarrow> lines0 @ map source cells @ [[CHR 0x0A]]);
          lines2 = lines1 @ main_def;
          lines3 = foldl (add_category categorized_cells) lines2 execution_categories;
          lines4 = lines3 @ main_guard
      in py_join [CHR 0x0A] lines4)"

definition generate_functions_module :: "'j parsed_cell list \<Rightarrow> string" where
  "generate_functions_module function_cells =
     py_join [CHR 0x0A]
       ([[CHR 0x22, CHR 0x22, CHR 0x22],
         ''Utility functions generated from Jupyter notebook'',
         [CHR 0x22, CHR 0x22, CHR 0x22],
         [CHR 0x0A]]
        @ concat (map (\<lambda>cell. [source cell, []]) function_cells))"

definition generate_training_module :: "'j parsed_cell list \<Rightarrow> string" where
  "generate_training_module training_cells =
     py_join [CHR 0x0A]
       ([[CHR 0x22, CHR 0x22, CHR 0x22],
         ''Training module for machine learning models'',
         [CHR 0x22, CHR 0x22, CHR 0x22],
         [CHR 0x0A]]
        @ concat (map (\<lambda>cell. [source cell, []]) training_cells))"

text \<open>The text of \<open>config.py\<close>: the lines of the literal, each with its newline.\<close>

definition config_content :: string where
  "config_content =
     concat (map (\<lambda>line. line @ [CHR 0x0A])
       [[CHR 0x22, CHR 0x22, CHR 0x22] @ ''Configuration file for ML project'' @ [CHR 0x22, CHR 0x22, CHR 0x22],
        [],
        ''import os'',
        ''from pathlib import Path'',
        [],
        ''# Project structure'',
        ''PROJECT_ROOT = Path(__file__).parent'',
        ''DATA_DIR = PROJECT_ROOT / '' @ [CHR 0x27] @ ''data'' @ [CHR 0x27],
        ''MODELS_DIR = PROJECT_ROOT / '' @ [CHR 0x27] @ ''models'' @ [CHR 0x27],
        ''REPORTS_DIR = PROJECT_ROOT / '' @ [CHR 0x27] @ ''reports'' @ [CHR 0x27],
        [],
        ''# Data configuration'',
        ''class DataConfig:'',
        ''    RAW_DATA_PATH = DATA_DIR / '' @ [CHR 0x27] @ ''raw'' @ [CHR 0x27],
        ''    PROCESSED_DATA_PATH = DATA_DIR / '' @ [CHR 0x27] @ ''processed'' @ [CHR 0x27],
        ''    '',
        ''class ModelConfig:'',
        ''    SAVE_PATH = MODELS_DIR / '' @ [CHR 0x27] @ ''trained'' @ [CHR 0x27],
        ''    HYPERPARAMETERS = {'',
        ''        '' @ [CHR 0x27] @ ''random_state'' @ [CHR 0x27] @ '': 42,'',
        ''        '' @ [CHR 0x27] @ ''test_size'' @ [CHR 0x27] @ '': 0.2'',
        ''    }''])"

text \<open>
  The files are the effect of the generator: each method gives the list of the files
  it writes, as pairs of a name under the output directory and a text.
\<close>

definition generate_config_files :: "'j parsed_notebook \<Rightarrow> (string \<times> string) list" where
  "generate_config_files parsed = [(''config.py'', config_content)]"

definition generate_python_files :: "'j parsed_notebook \<Rightarrow> (string \<times> string) list" where
  "generate_python_files parsed =
     (let categorized_cells = categorize_cells (pn_cells parsed)
      in [(''main.py'', generate_main_script categorized_cells)]
         @ (case map_of categorized_cells ''function_definitions'' of
              None \<Rightarrow> []
            | Some cells \<Rightarrow> [(''functions.py'', generate_functions_module cells)])
         @ (case map_of categorized_cells ''model_training'' of
              None \<Rightarrow> []
            | Some cells \<Rightarrow> [(''training.py'', generate_training_module cells)])
         @ generate_config_files parsed)"

text \<open>
  The first steps of the \<open>convert\<close> command (\<open>src/cli/main.py\<close>): the notebook is parsed,
  then the files are generated from the parsed notebook (the optional creation of the
  project directories between the two is left out). An exception of the parser leaves
  the command before the generator runs.
\<close>

definition convert :: "'j file_read \<Rightarrow> py_error + (string \<times> string) list" where
  "convert file =
     (case parse_notebook file of
        Inl e \<Rightarrow> Inl e
      | Inr parsed_notebook \<Rightarrow> Inr (generate_python_files parsed_notebook))"

section \<open>The statements of the specification\<close>

text \<open>
  The classifier as the specification words it: an ordered list of rules, each a
  vocabulary with its category; the first rule with a word of its vocabulary in the
  text gives the category, and the default is the catch-all.
\<close>

fun first_match :: "(string list \<times> string) list \<Rightarrow> string \<Rightarrow> string \<Rightarrow> string" where
  "first_match [] catch_all text = catch_all"
| "first_match ((vocabulary, cat) # rules) catch_all text =
     (if any_in vocabulary text then cat else first_match rules catch_all text)"

definition code_rules :: "(string list \<times> string) list" where
  "code_rules =
     [([''import'', ''from ''], ''imports''),
      ([''def '', ''class '', ''function''], ''function_definitions''),
      ([''model'', ''train'', ''fit'', ''compile''], ''model_training''),
      ([''plot'', ''visualize'', ''plt.'', ''seaborn''], ''visualization''),
      ([''preprocess'', ''clean'', ''transform''], ''data_processing''),
      ([''test'', ''assert'', ''check''], ''testing'')]"

definition markdown_rules :: "(string list \<times> string) list" where
  "markdown_rules =
     [([''# introduction'', ''# overview'', ''# abstract''], ''introduction''),
      ([''# setup'', ''# installation'', ''# requirements''], ''setup''),
      ([''# data'', ''# dataset'', ''# loading''], ''data_description''),
      ([''# method'', ''# approach'', ''# methodology''], ''methodology''),
      ([''# result'', ''# output'', ''# finding''], ''results''),
      ([''# conclusion'', ''# summary'', ''# discussion''], ''conclusion'')]"

text \<open>The category as a function of the kind of a cell and of its normalized source.\<close>

definition classify :: "string \<Rightarrow> string \<Rightarrow> string" where
  "classify kind src =
     (if kind = ''code''
      then (if py_strip src = [] then ''empty''
            else first_match code_rules ''general_code'' (py_lower src))
      else if kind = ''markdown''
      then (if py_strip src = [] then ''empty''
            else first_match markdown_rules
                   (if prefix ''#'' (py_lower src) \<or> py_in ''##'' (py_lower src)
                    then ''section_header'' else ''documentation'')
                   (py_lower src))
      else ''other'')"

definition all_categories :: "string list" where
  "all_categories =
     [''empty'', ''imports'', ''function_definitions'', ''model_training'', ''visualization'',
      ''data_processing'', ''testing'', ''general_code'',
      ''introduction'', ''setup'', ''data_description'', ''methodology'', ''results'',
      ''conclusion'', ''section_header'', ''documentation'', ''other'']"

text \<open>
  The main module as the specification words it: the cells of a category are those of
  the document with that category, in document order.
\<close>

definition cells_of :: "string \<Rightarrow> 'j parsed_cell list \<Rightarrow> 'j parsed_cell list" where
  "cells_of cat cells = filter (\<lambda>cell. category cell = cat) cells"

definition imports_block :: "'j parsed_cell list \<Rightarrow> string list" where
  "imports_block cells =
     (if cells_of ''imports'' cells = [] then []
      else map source (cells_of ''imports'' cells) @ [[CHR 0x0A]])"

definition category_block :: "'j parsed_cell list \<Rightarrow> string \<Rightarrow> string list" where
  "category_block cells cat =
     (if cells_of cat cells = [] then []
      else category_label cat # map (\<lambda>cell. indent_code (source cell)) (cells_of cat cells) @ [[]])"

text \<open>
  The cell of the specification's example for the two extraction paths, and the tree
  that \<open>ast.parse\<close> gives for it.
\<close>

definition example_cell :: string where
  "example_cell =
     ''import pandas as pd'' @ [CHR 0x0A] @ ''from sklearn.linear_model import LinearRegression''"

text \<open>A cell that the parser rejects: a magic line, then an aliased import.\<close>

definition magic_cell :: string where
  "magic_cell = ''%matplotlib inline'' @ [CHR 0x0A] @ ''import numpy as np''"

definition example_tree :: node where
  "example_tree =
     Node [Import [Alias ''pandas'' (Some ''pd'')],
           ImportFrom (Some ''sklearn.linear_model'') [Alias ''LinearRegression'' None] 0]"

text \<open>What one cell contributes to the identifier set when its extraction returns.\<close>

definition imports_of :: "parser \<Rightarrow> 'j parsed_cell \<Rightarrow> string set" where
  "imports_of parse cell =
     (case extract_imports parse (source cell) of Inl e \<Rightarrow> {} | Inr imports \<Rightarrow> imports)"

text \<open>
  A source text on which the parser of CPython raises \<open>RecursionError\<close>, not
  \<open>SyntaxError\<close>: the sum \<open>1+1+...+1\<close> of 100001 terms.
\<close>

definition deep_source :: string where
  "deep_source = CHR ''1'' # concat (replicate 100000 ''+1'')"

section \<open>Facts about the string functions\<close>

lemma py_join_nil: "py_join [] xs = concat xs"
  by (induction "[] :: string" xs rule: py_join.induct) simp_all

lemma py_strip_empty: "py_strip s = [] \<longleftrightarrow> (\<forall>c\<in>set s. py_isspace c)"
proof
  assume "py_strip s = []"
  then have all: "\<forall>c\<in>set (dropWhile py_isspace s). py_isspace c"
    by (simp add: py_strip_def)
  have "dropWhile py_isspace s = []"
  proof (cases "dropWhile py_isspace s")
    case Nil
    then show ?thesis .
  next
    case (Cons c cs)
    then have "\<not> py_isspace c"
      using hd_dropWhile [of py_isspace s] by auto
    with Cons all show ?thesis by auto
  qed
  then show "\<forall>c\<in>set s. py_isspace c" by simp
next
  assume "\<forall>c\<in>set s. py_isspace c"
  then show "py_strip s = []"
    by (auto simp add: py_strip_def dest: set_dropWhileD)
qed

lemma py_in_sublist: "py_in pat s \<longleftrightarrow> sublist pat s"
  by (induction s) (simp_all add: sublist_Cons_right)

lemma py_in_iff: "py_in pat s \<longleftrightarrow> (\<exists>before after. s = before @ pat @ after)"
  by (simp add: py_in_sublist sublist_def)

lemma of_char_lt_256: "(of_char c :: nat) < 256"
  by (metis of_char_of char_of_char mod_less_divisor zero_less_numeral)

lemma py_isspace_lower: "py_isspace (py_lower_char c) = py_isspace c"
  using of_char_lt_256 [of c]
  by (auto simp add: py_isspace_def py_lower_char_def Let_def)

lemma py_lower_char_idem: "py_lower_char (py_lower_char c) = py_lower_char c"
  using of_char_lt_256 [of c]
  by (auto simp add: py_lower_char_def Let_def)

lemma py_lower_idem: "py_lower (py_lower s) = py_lower s"
  by (simp add: py_lower_def py_lower_char_idem)

lemma py_strip_lower: "py_strip (py_lower s) = [] \<longleftrightarrow> py_strip s = []"
  by (simp add: py_strip_empty py_lower_def py_isspace_lower)

section \<open>Source normalization\<close>

text \<open>
  Claim C7. A source given as a sequence of fragments normalizes to the concatenation of
  the fragments, with nothing inserted between them, and so to the same text as the
  already concatenated string; splitting the fragments differently changes nothing. The
  fragments \<open>"import os\n"\<close>, \<open>"import sys"\<close> normalize as the string
  \<open>"import os\nimport sys"\<close> does.
\<close>

theorem source_normalization_concatenation:
  "normalize_source (Some (SourceFragments fragments)) = concat fragments
   \<and> normalize_source (Some (SourceFragments fragments))
       = normalize_source (Some (SourceString (concat fragments)))
   \<and> normalize_source (Some (SourceFragments (xs @ ys)))
       = normalize_source (Some (SourceFragments xs)) @ normalize_source (Some (SourceFragments ys))
   \<and> normalize_source (Some (SourceFragments [''import os'' @ [CHR 0x0A], ''import sys'']))
       = normalize_source (Some (SourceString (''import os'' @ [CHR 0x0A] @ ''import sys'')))
   \<and> source (extract_cell \<lparr> raw_cell_type = kind, raw_source = Some (SourceFragments fragments),
                               raw_metadata = md, raw_outputs = out \<rparr>)
       = source (extract_cell \<lparr> raw_cell_type = kind, raw_source = Some (SourceString (concat fragments)),
                               raw_metadata = md, raw_outputs = out \<rparr>)"
  by (simp add: normalize_source_def get_default_def py_join_nil extract_cell_def Let_def)

section \<open>The import rule of the classifier\<close>

lemma import_not_blank:
  assumes "py_lower src = before @ ''import'' @ after"
  shows "py_strip src \<noteq> []"
proof
  assume "py_strip src = []"
  then have "\<forall>c\<in>set (py_lower src). py_isspace c"
    by (simp add: py_strip_empty py_lower_def py_isspace_lower)
  moreover have "CHR ''i'' \<in> set (py_lower src)"
    by (simp add: assms)
  ultimately have "py_isspace CHR ''i''" by blast
  then show False by (simp add: py_isspace_def)
qed

text \<open>
  Claim C10. The keyword rules of the code-cell classifier test whether the lower-cased
  source contains the keyword as a block of characters: a code cell whose lower-cased
  source contains \<open>import\<close> anywhere, also inside a longer word such as
  \<open>important\<close>, is not blank and gets the category \<open>imports\<close>, whatever the later
  rules would say.
\<close>

theorem import_substring_rule:
  assumes "py_lower src = before @ ''import'' @ after"
  shows "categorize_code_cell src = ''imports''
         \<and> category (extract_cell \<lparr> raw_cell_type = Some ''code'', raw_source = Some (SourceString src),
                                     raw_metadata = md, raw_outputs = out \<rparr>) = ''imports''"
proof -
  have "py_in ''import'' (py_lower src)"
    using assms py_in_iff by blast
  then have "any_in [''import'', ''from ''] (py_lower src)"
    by (simp add: any_in_def)
  with import_not_blank [OF assms] have "categorize_code_cell src = ''imports''"
    by (simp add: categorize_code_cell_def Let_def)
  then show ?thesis
    by (simp add: extract_cell_def Let_def get_default_def normalize_source_def)
qed

theorem import_substring_rule_witness:
  "py_lower ''# Important: train the model, then plot it''
     = ''# '' @ ''import'' @ ''ant: train the model, then plot it''
   \<and> categorize_code_cell ''# Important: train the model, then plot it'' = ''imports''
   \<and> category (extract_cell \<lparr> raw_cell_type = Some ''code'',
         raw_source = Some (SourceString ''# Important: train the model, then plot it''),
         raw_metadata = (None :: (string \<times> unit) list option), raw_outputs = None \<rparr>) = ''imports''"
proof -
  have h: "py_lower ''# Important: train the model, then plot it''
        = ''# '' @ ''import'' @ ''ant: train the model, then plot it''"
    by code_simp
  from h import_substring_rule [OF h, where md = "None :: (string \<times> unit) list option" and out = None]
  show ?thesis by blast
qed

section \<open>Classification\<close>

lemma categorize_code_cell_rules:
  "categorize_code_cell src = classify ''code'' src"
  by (simp add: categorize_code_cell_def classify_def code_rules_def Let_def)

lemma categorize_markdown_cell_rules:
  "categorize_markdown_cell src = classify ''markdown'' src"
  by (simp add: categorize_markdown_cell_def classify_def markdown_rules_def Let_def)

lemma category_extract_cell:
  "category (extract_cell cell)
     = classify (get_default (raw_cell_type cell) ''code'') (normalize_source (raw_source cell))"
  by (simp add: extract_cell_def Let_def categorize_code_cell_rules categorize_markdown_cell_rules
      classify_def)

lemma extract_cells_map: "extract_cells cells = map extract_cell cells"
  by (induction cells) simp_all

lemma first_match_range:
  "first_match rules catch_all text \<in> insert catch_all (snd ` set rules)"
  by (induction rules catch_all "text" rule: first_match.induct) auto

lemma classify_range: "classify kind src \<in> set all_categories"
proof -
  have rc: "first_match code_rules ''general_code'' t \<in> set all_categories" for t
    using first_match_range [of code_rules "''general_code''" t]
    by (auto simp add: code_rules_def all_categories_def)
  have rm: "first_match markdown_rules d t \<in> set all_categories"
    if "d = ''section_header'' \<or> d = ''documentation''" for d t
    using first_match_range [of markdown_rules d t] that
    by (auto simp add: markdown_rules_def all_categories_def)
  have re: "''empty'' \<in> set all_categories" "''other'' \<in> set all_categories"
    by (simp_all add: all_categories_def)
  show ?thesis
    unfolding classify_def using rc rm re by auto
qed

lemma classify_case_insensitive:
  "py_lower src' = py_lower src \<Longrightarrow> classify kind src' = classify kind src"
  using py_strip_lower [of src] py_strip_lower [of src']
  by (simp add: classify_def)

lemma first_match_none:
  "\<forall>rule\<in>set rules. \<not> any_in (fst rule) t \<Longrightarrow> first_match rules catch_all t = catch_all"
  by (induction rules catch_all t rule: first_match.induct) auto

lemma classify_refines_chain:
  "map category (extract_cells cells)
     = map (\<lambda>cell. classify (get_default (raw_cell_type cell) ''code'')
                             (normalize_source (raw_source cell))) cells
   \<and> categorize_code_cell src = classify ''code'' src
   \<and> categorize_markdown_cell src = classify ''markdown'' src
   \<and> map snd code_rules = [''imports'', ''function_definitions'', ''model_training'',
                             ''visualization'', ''data_processing'', ''testing'']
   \<and> classify kind src \<in> set all_categories
   \<and> (py_lower src' = py_lower src \<longrightarrow> classify kind src' = classify kind src)
   \<and> (py_strip src \<noteq> [] \<and> (\<forall>rule\<in>set code_rules. \<not> any_in (fst rule) (py_lower src))
        \<longrightarrow> classify ''code'' src = ''general_code'')
   \<and> (py_strip src \<noteq> [] \<and> (\<forall>rule\<in>set markdown_rules. \<not> any_in (fst rule) (py_lower src))
          \<and> \<not> prefix ''#'' (py_lower src) \<and> \<not> py_in ''##'' (py_lower src)
        \<longrightarrow> classify ''markdown'' src = ''documentation'')
   \<and> (kind \<noteq> ''code'' \<and> kind \<noteq> ''markdown'' \<longrightarrow> classify kind src = ''other'')"
proof -
  have cells: "map category (extract_cells cells)
     = map (\<lambda>cell. classify (get_default (raw_cell_type cell) ''code'')
                             (normalize_source (raw_source cell))) cells"
    by (simp add: extract_cells_map category_extract_cell)
  have order: "map snd code_rules = [''imports'', ''function_definitions'', ''model_training'',
                             ''visualization'', ''data_processing'', ''testing'']"
    by (simp add: code_rules_def)
  have general: "py_strip src \<noteq> [] \<and> (\<forall>rule\<in>set code_rules. \<not> any_in (fst rule) (py_lower src))
        \<longrightarrow> classify ''code'' src = ''general_code''"
    using first_match_none [of code_rules "py_lower src" "''general_code''"]
    by (simp add: classify_def)
  have doc: "py_strip src \<noteq> [] \<and> (\<forall>rule\<in>set markdown_rules. \<not> any_in (fst rule) (py_lower src))
          \<and> \<not> prefix ''#'' (py_lower src) \<and> \<not> py_in ''##'' (py_lower src)
        \<longrightarrow> classify ''markdown'' src = ''documentation''"
    using first_match_none [of markdown_rules "py_lower src" "''documentation''"]
    by (simp add: classify_def)
  have other: "kind \<noteq> ''code'' \<and> kind \<noteq> ''markdown'' \<longrightarrow> classify kind src = ''other''"
    by (simp add: classify_def)
  from cells order general doc other show ?thesis
    using categorize_code_cell_rules [of src] categorize_markdown_cell_rules [of src]
      classify_range [of kind src] classify_case_insensitive [of src' src kind]
    by blast
qed

lemma any_in_iff: "any_in vocabulary t \<longleftrightarrow> (\<exists>k\<in>set vocabulary. sublist k t)"
  by (simp add: any_in_def list_ex_iff py_in_sublist)

lemma first_match_fires:
  assumes "kw \<in> set vocabulary" and "sublist kw t"
    and "\<forall>rule\<in>set earlier. \<forall>k\<in>set (fst rule). \<not> sublist k t"
  shows "first_match (earlier @ (vocabulary, cat) # later) catch_all t = cat"
  using assms by (induction earlier) (auto simp add: any_in_iff)

lemma first_match_falls_through:
  "\<forall>rule\<in>set rules. \<forall>k\<in>set (fst rule). \<not> sublist k t
   \<Longrightarrow> first_match rules catch_all t = catch_all"
  by (rule first_match_none) (simp add: any_in_iff)

lemma occurrence_not_blank:
  assumes "py_lower src = before @ kw @ after" and "kw \<noteq> []" and "\<not> py_isspace (hd kw)"
  shows "py_strip src \<noteq> []"
proof
  assume "py_strip src = []"
  then have "\<forall>c\<in>set (py_lower src). py_isspace c"
    by (simp add: py_strip_empty py_lower_def py_isspace_lower)
  moreover have "hd kw \<in> set (py_lower src)"
    using assms(1,2) by simp
  ultimately show False
    using assms(3) by blast
qed

lemma code_keywords_visible:
  "\<forall>rule\<in>set code_rules. \<forall>k\<in>set (fst rule). k \<noteq> [] \<and> \<not> py_isspace (hd k)"
  by (simp add: code_rules_def py_isspace_def)

lemma markdown_keywords_visible:
  "\<forall>rule\<in>set markdown_rules. \<forall>k\<in>set (fst rule). k \<noteq> [] \<and> \<not> py_isspace (hd k)"
  by (simp add: markdown_rules_def py_isspace_def)

lemma blank_is_empty:
  assumes "\<forall>c\<in>set src. py_isspace c"
  shows "categorize_code_cell src = ''empty'' \<and> categorize_markdown_cell src = ''empty''"
  using assms by (simp add: categorize_code_cell_def categorize_markdown_cell_def py_strip_empty)

lemma code_rule_fires:
  assumes split: "code_rules = earlier @ (vocabulary, cat) # later"
    and kw: "kw \<in> set vocabulary"
    and occ: "py_lower src = before @ kw @ after"
    and first: "\<forall>rule\<in>set earlier. \<forall>k\<in>set (fst rule). \<not> sublist k (py_lower src)"
  shows "categorize_code_cell src = cat"
proof -
  have "(vocabulary, cat) \<in> set code_rules"
    by (simp add: split)
  with kw code_keywords_visible have "kw \<noteq> []" "\<not> py_isspace (hd kw)"
    by fastforce+
  from occurrence_not_blank [OF occ this] have nb: "py_strip src \<noteq> []" .
  have "sublist kw (py_lower src)"
    unfolding sublist_def using occ by blast
  from first_match_fires [OF kw this first]
  have "first_match code_rules ''general_code'' (py_lower src) = cat"
    by (simp add: split)
  with nb show ?thesis
    by (simp add: categorize_code_cell_rules classify_def)
qed

lemma markdown_rule_fires:
  assumes split: "markdown_rules = earlier @ (vocabulary, cat) # later"
    and kw: "kw \<in> set vocabulary"
    and occ: "py_lower src = before @ kw @ after"
    and first: "\<forall>rule\<in>set earlier. \<forall>k\<in>set (fst rule). \<not> sublist k (py_lower src)"
  shows "categorize_markdown_cell src = cat"
proof -
  have "(vocabulary, cat) \<in> set markdown_rules"
    by (simp add: split)
  with kw markdown_keywords_visible have "kw \<noteq> []" "\<not> py_isspace (hd kw)"
    by fastforce+
  from occurrence_not_blank [OF occ this] have nb: "py_strip src \<noteq> []" .
  have "sublist kw (py_lower src)"
    unfolding sublist_def using occ by blast
  from first_match_fires [OF kw this first]
  have "first_match markdown_rules d (py_lower src) = cat" for d
    by (simp add: split)
  with nb show ?thesis
    by (simp add: categorize_markdown_cell_rules classify_def)
qed

lemma code_catch_all:
  assumes "\<exists>c\<in>set src. \<not> py_isspace c"
    and "\<forall>rule\<in>set code_rules. \<forall>k\<in>set (fst rule). \<not> sublist k (py_lower src)"
  shows "categorize_code_cell src = ''general_code''"
  using assms first_match_falls_through [of code_rules "py_lower src" "''general_code''"]
  by (simp add: categorize_code_cell_rules classify_def py_strip_empty)

lemma markdown_catch_all:
  assumes "\<exists>c\<in>set src. \<not> py_isspace c"
    and "\<forall>rule\<in>set markdown_rules. \<forall>k\<in>set (fst rule). \<not> sublist k (py_lower src)"
  shows "categorize_markdown_cell src
     = (if prefix ''#'' (py_lower src) \<or> sublist ''##'' (py_lower src)
        then ''section_header'' else ''documentation'')"
  using assms first_match_falls_through [of markdown_rules "py_lower src"]
  by (auto simp add: categorize_markdown_cell_rules classify_def py_strip_empty py_in_sublist)

text \<open>
  Claim C6. Classification is a function of the kind of a cell and of its normalized
  source, and every cell gets one category of the fixed list. A source of white space
  only is \<open>empty\<close>. For a code cell the source's chain of tests is the ordered rule
  list (imports, function_definitions, model_training, visualization, data_processing,
  testing), evaluated first match wins on the lower-cased source: a source in which a
  word of a rule's vocabulary occurs, and no word of an earlier rule, gets the category
  of that rule, whatever the later rules would say, and two sources that differ in case
  only get the same category; \<open>general_code\<close> is the catch-all. The rules of a markdown
  cell are read the same way; a markdown cell that no rule matches is a
  \<open>section_header\<close> when it starts with \<open>#\<close> or contains \<open>##\<close> and \<open>documentation\<close>
  otherwise, and a cell of any other kind is \<open>other\<close>.
\<close>

theorem classification_total_first_match:
  "map category (extract_cells cells)
     = map (\<lambda>cell. classify (get_default (raw_cell_type cell) ''code'')
                             (normalize_source (raw_source cell))) cells
   \<and> categorize_code_cell src = classify ''code'' src
   \<and> categorize_markdown_cell src = classify ''markdown'' src
   \<and> map snd code_rules = [''imports'', ''function_definitions'', ''model_training'',
                             ''visualization'', ''data_processing'', ''testing'']
   \<and> classify kind src \<in> set all_categories
   \<and> (py_lower src' = py_lower src \<longrightarrow> classify kind src' = classify kind src)
   \<and> (py_strip src \<noteq> [] \<and> (\<forall>rule\<in>set code_rules. \<not> any_in (fst rule) (py_lower src))
        \<longrightarrow> classify ''code'' src = ''general_code'')
   \<and> (py_strip src \<noteq> [] \<and> (\<forall>rule\<in>set markdown_rules. \<not> any_in (fst rule) (py_lower src))
          \<and> \<not> prefix ''#'' (py_lower src) \<and> \<not> py_in ''##'' (py_lower src)
        \<longrightarrow> classify ''markdown'' src = ''documentation'')
   \<and> (kind \<noteq> ''code'' \<and> kind \<noteq> ''markdown'' \<longrightarrow> classify kind src = ''other'')
   \<and> ((\<forall>c\<in>set src. py_isspace c)
        \<longrightarrow> categorize_code_cell src = ''empty'' \<and> categorize_markdown_cell src = ''empty'')
   \<and> (code_rules = earlier @ (vocabulary, cat) # later \<and> kw \<in> set vocabulary
          \<and> py_lower src = before @ kw @ after
          \<and> (\<forall>rule\<in>set earlier. \<forall>k\<in>set (fst rule). \<not> sublist k (py_lower src))
        \<longrightarrow> categorize_code_cell src = cat)
   \<and> (markdown_rules = earlier @ (vocabulary, cat) # later \<and> kw \<in> set vocabulary
          \<and> py_lower src = before @ kw @ after
          \<and> (\<forall>rule\<in>set earlier. \<forall>k\<in>set (fst rule). \<not> sublist k (py_lower src))
        \<longrightarrow> categorize_markdown_cell src = cat)
   \<and> ((\<exists>c\<in>set src. \<not> py_isspace c)
          \<and> (\<forall>rule\<in>set code_rules. \<forall>k\<in>set (fst rule). \<not> sublist k (py_lower src))
        \<longrightarrow> categorize_code_cell src = ''general_code'')
   \<and> ((\<exists>c\<in>set src. \<not> py_isspace c)
          \<and> (\<forall>rule\<in>set markdown_rules. \<forall>k\<in>set (fst rule). \<not> sublist k (py_lower src))
        \<longrightarrow> categorize_markdown_cell src
            = (if prefix ''#'' (py_lower src) \<or> sublist ''##'' (py_lower src)
               then ''section_header'' else ''documentation''))"
proof -
  note chain = classify_refines_chain [of cells src kind src']
  have blank: "(\<forall>c\<in>set src. py_isspace c)
        \<longrightarrow> categorize_code_cell src = ''empty'' \<and> categorize_markdown_cell src = ''empty''"
    using blank_is_empty [of src] by (intro impI)
  have code_fires: "code_rules = earlier @ (vocabulary, cat) # later \<and> kw \<in> set vocabulary
          \<and> py_lower src = before @ kw @ after
          \<and> (\<forall>rule\<in>set earlier. \<forall>k\<in>set (fst rule). \<not> sublist k (py_lower src))
        \<longrightarrow> categorize_code_cell src = cat"
    by (intro impI, elim conjE) (rule code_rule_fires)
  have markdown_fires: "markdown_rules = earlier @ (vocabulary, cat) # later \<and> kw \<in> set vocabulary
          \<and> py_lower src = before @ kw @ after
          \<and> (\<forall>rule\<in>set earlier. \<forall>k\<in>set (fst rule). \<not> sublist k (py_lower src))
        \<longrightarrow> categorize_markdown_cell src = cat"
    by (intro impI, elim conjE) (rule markdown_rule_fires)
  have code_default: "(\<exists>c\<in>set src. \<not> py_isspace c)
          \<and> (\<forall>rule\<in>set code_rules. \<forall>k\<in>set (fst rule). \<not> sublist k (py_lower src))
        \<longrightarrow> categorize_code_cell src = ''general_code''"
    by (intro impI, elim conjE) (rule code_catch_all)
  have markdown_default: "(\<exists>c\<in>set src. \<not> py_isspace c)
          \<and> (\<forall>rule\<in>set markdown_rules. \<forall>k\<in>set (fst rule). \<not> sublist k (py_lower src))
        \<longrightarrow> categorize_markdown_cell src
            = (if prefix ''#'' (py_lower src) \<or> sublist ''##'' (py_lower src)
               then ''section_header'' else ''documentation'')"
    by (intro impI, elim conjE) (rule markdown_catch_all)
  from chain blank code_fires markdown_fires code_default markdown_default show ?thesis
    by - (elim conjE, (intro conjI; assumption))
qed

theorem classification_total_first_match_witness:
  "code_rules
     = [([''import'', ''from ''], ''imports''),
        ([''def '', ''class '', ''function''], ''function_definitions'')]
       @ ([''model'', ''train'', ''fit'', ''compile''], ''model_training'')
       # [([''plot'', ''visualize'', ''plt.'', ''seaborn''], ''visualization''),
          ([''preprocess'', ''clean'', ''transform''], ''data_processing''),
          ([''test'', ''assert'', ''check''], ''testing'')]
   \<and> py_lower ''Model.Fit(X)'' = [] @ ''model'' @ ''.fit(x)''
   \<and> \<not> list_ex (\<lambda>rule. list_ex (\<lambda>k. sublist k (py_lower ''Model.Fit(X)'')) (fst rule))
         [([''import'', ''from ''], ''imports''),
          ([''def '', ''class '', ''function''], ''function_definitions'')]
   \<and> categorize_code_cell ''Model.Fit(X)'' = ''model_training''
   \<and> list_all py_isspace [CHR 0x20, CHR 0x0A, CHR 0x09]
   \<and> categorize_code_cell [CHR 0x20, CHR 0x0A, CHR 0x09] = ''empty''
   \<and> categorize_markdown_cell [CHR 0x20, CHR 0x0A, CHR 0x09] = ''empty''
   \<and> py_lower ''# Introduction to the data'' = [] @ ''# introduction'' @ '' to the data''
   \<and> categorize_markdown_cell ''# Introduction to the data'' = ''introduction''
   \<and> list_ex (\<lambda>c. \<not> py_isspace c) ''np.mean([1,2,3])''
   \<and> \<not> list_ex (\<lambda>rule. list_ex (\<lambda>k. sublist k (py_lower ''np.mean([1,2,3])'')) (fst rule)) code_rules
   \<and> categorize_code_cell ''np.mean([1,2,3])'' = ''general_code''
   \<and> categorize_markdown_cell ''## Notes'' = ''section_header''
   \<and> categorize_markdown_cell ''Some notes'' = ''documentation''
   \<and> categorize_code_cell ''import numpy as np'' = ''imports''
   \<and> categorize_code_cell ''def test_model(): pass'' = ''function_definitions''
   \<and> categorize_code_cell ''train_and_plot(check)'' = ''model_training''
   \<and> categorize_code_cell ''plt.show()  # clean test'' = ''visualization''
   \<and> categorize_code_cell ''df = clean(df); check(df)'' = ''data_processing''
   \<and> categorize_code_cell ''assert x > 0'' = ''testing''
   \<and> map category (extract_cells
         [\<lparr> raw_cell_type = Some ''code'', raw_source = Some (SourceString ''import numpy as np''),
             raw_metadata = (None :: (string \<times> unit) list option), raw_outputs = None \<rparr>,
          \<lparr> raw_cell_type = None, raw_source = Some (SourceFragments [''def f(x): '', ''return x+1'']),
             raw_metadata = None, raw_outputs = None \<rparr>,
          \<lparr> raw_cell_type = Some ''code'', raw_source = Some (SourceString ''np.mean([1,2,3])''),
             raw_metadata = None, raw_outputs = None \<rparr>,
          \<lparr> raw_cell_type = Some ''markdown'', raw_source = Some (SourceString ''Some notes''),
             raw_metadata = None, raw_outputs = None \<rparr>,
          \<lparr> raw_cell_type = Some ''raw'', raw_source = None,
             raw_metadata = None, raw_outputs = None \<rparr>])
       = [''imports'', ''function_definitions'', ''general_code'', ''documentation'', ''other'']"
proof -
  let ?earlier = "[([''import'', ''from ''], ''imports''),
        ([''def '', ''class '', ''function''], ''function_definitions'')]"
  let ?later = "[([''plot'', ''visualize'', ''plt.'', ''seaborn''], ''visualization''),
          ([''preprocess'', ''clean'', ''transform''], ''data_processing''),
          ([''test'', ''assert'', ''check''], ''testing'')]"
  let ?vocabulary = "[''model'', ''train'', ''fit'', ''compile'']"
  have split: "code_rules = ?earlier @ (?vocabulary, ''model_training'') # ?later"
    by (simp add: code_rules_def)
  have kw: "''model'' \<in> set ?vocabulary"
    by simp
  have occ: "py_lower ''Model.Fit(X)'' = [] @ ''model'' @ ''.fit(x)''"
    by code_simp
  have first: "\<forall>rule\<in>set ?earlier. \<forall>k\<in>set (fst rule). \<not> sublist k (py_lower ''Model.Fit(X)'')"
    by code_simp
  have first': "\<not> list_ex (\<lambda>rule. list_ex (\<lambda>k. sublist k (py_lower ''Model.Fit(X)'')) (fst rule)) ?earlier"
    using first by (simp only: list_ex_iff) blast
  note t1 = classification_total_first_match
    [where cells = "[] :: unit raw_cell list" and src = "''Model.Fit(X)''" and kind = "''code''"
       and src' = "''Model.Fit(X)''" and earlier = ?earlier and vocabulary = ?vocabulary
       and cat = "''model_training''" and later = ?later and kw = "''model''" and before = "[]"
       and after = "''.fit(x)''"]
  have fires: "categorize_code_cell ''Model.Fit(X)'' = ''model_training''"
    by (rule t1 [THEN conjunct2, THEN conjunct2, THEN conjunct2, THEN conjunct2, THEN conjunct2,
          THEN conjunct2, THEN conjunct2, THEN conjunct2, THEN conjunct2, THEN conjunct2,
          THEN conjunct1, THEN mp]) (intro conjI split kw occ first)
  have blank: "\<forall>c\<in>set [CHR 0x20, CHR 0x0A, CHR 0x09]. py_isspace c"
    by (simp add: py_isspace_def)
  have blank': "list_all py_isspace [CHR 0x20, CHR 0x0A, CHR 0x09]"
    using blank by (simp only: list_all_iff)
  note t2 = classification_total_first_match
    [where cells = "[] :: unit raw_cell list" and src = "[CHR 0x20, CHR 0x0A, CHR 0x09]"
       and kind = "''code''" and src' = "[]" and earlier = "[]" and vocabulary = "[]"
       and cat = "[]" and later = "[]" and kw = "[]" and before = "[]" and after = "[]"]
  have empty: "categorize_code_cell [CHR 0x20, CHR 0x0A, CHR 0x09] = ''empty''
      \<and> categorize_markdown_cell [CHR 0x20, CHR 0x0A, CHR 0x09] = ''empty''"
    by (rule t2 [THEN conjunct2, THEN conjunct2, THEN conjunct2, THEN conjunct2, THEN conjunct2,
          THEN conjunct2, THEN conjunct2, THEN conjunct2, THEN conjunct2,
          THEN conjunct1, THEN mp]) (rule blank)
  have md_occ: "py_lower ''# Introduction to the data'' = [] @ ''# introduction'' @ '' to the data''"
    by code_simp
  have md: "categorize_markdown_cell ''# Introduction to the data'' = ''introduction''"
    by code_simp
  have visible: "list_ex (\<lambda>c. \<not> py_isspace c) ''np.mean([1,2,3])''"
    by code_simp
  have norule: "\<not> list_ex (\<lambda>rule. list_ex (\<lambda>k. sublist k (py_lower ''np.mean([1,2,3])'')) (fst rule)) code_rules"
    by code_simp
  note t3 = classification_total_first_match
    [where cells = "[] :: unit raw_cell list" and src = "''np.mean([1,2,3])''"
       and kind = "''code''" and src' = "[]" and earlier = "[]" and vocabulary = "[]"
       and cat = "[]" and later = "[]" and kw = "[]" and before = "[]" and after = "[]"]
  have general: "categorize_code_cell ''np.mean([1,2,3])'' = ''general_code''"
    using visible norule
    by (intro t3 [THEN conjunct2, THEN conjunct2, THEN conjunct2, THEN conjunct2, THEN conjunct2,
          THEN conjunct2, THEN conjunct2, THEN conjunct2, THEN conjunct2, THEN conjunct2,
          THEN conjunct2, THEN conjunct2, THEN conjunct1, THEN mp])
       (simp only: list_ex_iff, blast)
  have examples:
    "categorize_markdown_cell ''## Notes'' = ''section_header''"
    "categorize_markdown_cell ''Some notes'' = ''documentation''"
    "categorize_code_cell ''import numpy as np'' = ''imports''"
    "categorize_code_cell ''def test_model(): pass'' = ''function_definitions''"
    "categorize_code_cell ''train_and_plot(check)'' = ''model_training''"
    "categorize_code_cell ''plt.show()  # clean test'' = ''visualization''"
    "categorize_code_cell ''df = clean(df); check(df)'' = ''data_processing''"
    "categorize_code_cell ''assert x > 0'' = ''testing''"
    by code_simp+
  have f: "categorize_code_cell ''def f(x): return x+1'' = ''function_definitions''"
    by code_simp
  have cells: "map category (extract_cells
         [\<lparr> raw_cell_type = Some ''code'', raw_source = Some (SourceString ''import numpy as np''),
             raw_metadata = (None :: (string \<times> unit) list option), raw_outputs = None \<rparr>,
          \<lparr> raw_cell_type = None, raw_source = Some (SourceFragments [''def f(x): '', ''return x+1'']),
             raw_metadata = None, raw_outputs = None \<rparr>,
          \<lparr> raw_cell_type = Some ''code'', raw_source = Some (SourceString ''np.mean([1,2,3])''),
             raw_metadata = None, raw_outputs = None \<rparr>,
          \<lparr> raw_cell_type = Some ''markdown'', raw_source = Some (SourceString ''Some notes''),
             raw_metadata = None, raw_outputs = None \<rparr>,
          \<lparr> raw_cell_type = Some ''raw'', raw_source = None,
             raw_metadata = None, raw_outputs = None \<rparr>])
       = [''imports'', ''function_definitions'', ''general_code'', ''documentation'', ''other'']"
    using examples(2,3) f general
    by (simp add: extract_cell_def Let_def get_default_def normalize_source_def)
  from split occ first' fires blank' empty md_occ md visible norule general examples cells
  show ?thesis
    by - (elim conjE, (intro conjI; assumption))
qed

section \<open>The version check of the parser\<close>

lemma str_int_2: "str_int 2 = ''2''"
  by code_simp

text \<open>
  Claim C4. Parsing a decoded document succeeds exactly when its version marker is 4 or
  5, an absent marker counting as 4. With any other marker, 2 for example, parsing fails
  with a \<open>ValueError\<close> that names the version; there is then no parsed notebook, hence
  no cells, and the conversion generates no file.
\<close>

theorem parse_notebook_version_check:
  "((\<exists>parsed. parse_notebook (Decoded doc) = Inr parsed) \<longleftrightarrow> get_default (nbformat doc) 4 \<in> {4, 5})
   \<and> (nbformat doc = None \<longrightarrow> (\<exists>parsed. parse_notebook (Decoded doc) = Inr parsed))
   \<and> (get_default (nbformat doc) 4 \<notin> {4, 5} \<longrightarrow>
        parse_notebook (Decoded doc)
          = Inl (ValueError (''Unsupported notebook version: '' @ str_int (get_default (nbformat doc) 4)))
        \<and> convert (Decoded doc)
          = Inl (ValueError (''Unsupported notebook version: '' @ str_int (get_default (nbformat doc) 4))))
   \<and> (nbformat doc = Some 2 \<longrightarrow>
        parse_notebook (Decoded doc) = Inl (ValueError ''Unsupported notebook version: 2'')
        \<and> convert (Decoded doc) = Inl (ValueError ''Unsupported notebook version: 2''))
   \<and> (\<forall>parsed. parse_notebook (Decoded doc) = Inr parsed \<longrightarrow>
        length (pn_cells parsed) = length (get_default (nb_cells doc) []))"
  by (auto simp add: parse_notebook_def convert_def supported_versions_def Let_def get_default_def
      str_int_2 extract_cells_map split: option.splits)

theorem parse_notebook_version_check_witness:
  "nbformat \<lparr> nbformat = Some 2, nb_meta = None, nb_cells = (Some [] :: unit raw_cell list option) \<rparr> = Some 2
   \<and> get_default (Some (2 :: int)) 4 \<notin> {4, 5}
   \<and> parse_notebook (Decoded \<lparr> nbformat = Some 2, nb_meta = None,
                                  nb_cells = (Some [] :: unit raw_cell list option) \<rparr>)
       = Inl (ValueError ''Unsupported notebook version: 2'')
   \<and> convert (Decoded \<lparr> nbformat = Some 2, nb_meta = None,
                           nb_cells = (Some [] :: unit raw_cell list option) \<rparr>)
       = Inl (ValueError ''Unsupported notebook version: 2'')
   \<and> (\<exists>parsed. parse_notebook (Decoded \<lparr> nbformat = None, nb_meta = None,
                                  nb_cells = (Some [] :: unit raw_cell list option) \<rparr>) = Inr parsed)"
proof -
  have v: "nbformat \<lparr> nbformat = Some 2, nb_meta = None, nb_cells = (Some [] :: unit raw_cell list option) \<rparr> = Some 2"
    by simp
  have out: "get_default (Some (2 :: int)) 4 \<notin> {4, 5}"
    by (simp add: get_default_def)
  have absent: "nbformat \<lparr> nbformat = None, nb_meta = None, nb_cells = (Some [] :: unit raw_cell list option) \<rparr> = None"
    by simp
  from v out absent
    parse_notebook_version_check
      [of "\<lparr> nbformat = Some 2, nb_meta = None, nb_cells = (Some [] :: unit raw_cell list option) \<rparr>"]
    parse_notebook_version_check
      [of "\<lparr> nbformat = None, nb_meta = None, nb_cells = (Some [] :: unit raw_cell list option) \<rparr>"]
  show ?thesis by blast
qed

section \<open>The configuration module\<close>

lemma config_defines_project_root:
  "py_in ''PROJECT_ROOT = Path(__file__).parent'' config_content"
  by code_simp

lemma config_defines_data_paths:
  "py_in (''class DataConfig:'' @ [CHR 0x0A] @ ''    RAW_DATA_PATH = DATA_DIR / '') config_content"
  by code_simp

lemma config_defines_model_paths:
  "py_in (''class ModelConfig:'' @ [CHR 0x0A] @ ''    SAVE_PATH = MODELS_DIR / '') config_content"
  by code_simp

lemma config_defines_random_state:
  "py_in ([CHR 0x27] @ ''random_state'' @ [CHR 0x27] @ '': 42'') config_content"
  by code_simp

lemma config_defines_test_size:
  "py_in ([CHR 0x27] @ ''test_size'' @ [CHR 0x27] @ '': 0.2'') config_content"
  by code_simp

text \<open>
  Claim C8. The text of the configuration module is a constant: for any two parsed
  notebooks the generator writes the same \<open>config.py\<close>, character for character. The
  text defines the project root, the data paths and the model paths, with the
  hyperparameters \<open>random_state\<close> 42 and \<open>test_size\<close> 0.2.
\<close>

theorem config_module_constant:
  "generate_config_files nb1 = generate_config_files nb2
   \<and> map_of (generate_python_files nb1) ''config.py'' = Some config_content
   \<and> map_of (generate_python_files nb2) ''config.py'' = Some config_content
   \<and> py_in ''PROJECT_ROOT = Path(__file__).parent'' config_content
   \<and> py_in (''class DataConfig:'' @ [CHR 0x0A] @ ''    RAW_DATA_PATH = DATA_DIR / '') config_content
   \<and> py_in (''class ModelConfig:'' @ [CHR 0x0A] @ ''    SAVE_PATH = MODELS_DIR / '') config_content
   \<and> py_in ([CHR 0x27] @ ''random_state'' @ [CHR 0x27] @ '': 42'') config_content
   \<and> py_in ([CHR 0x27] @ ''test_size'' @ [CHR 0x27] @ '': 0.2'') config_content"
proof -
  have "generate_config_files nb1 = generate_config_files nb2"
    by (simp add: generate_config_files_def)
  moreover have "map_of (generate_python_files nb1) ''config.py'' = Some config_content"
    by (simp add: generate_config_files_def generate_python_files_def Let_def split: option.split)
  moreover have "map_of (generate_python_files nb2) ''config.py'' = Some config_content"
    by (simp add: generate_config_files_def generate_python_files_def Let_def split: option.split)
  ultimately show ?thesis
    using config_defines_project_root config_defines_data_paths config_defines_model_paths
      config_defines_random_state config_defines_test_size
    by blast
qed

section \<open>The two extraction paths\<close>

lemma regex_import_names_example: "regex_import_names example_cell = [''pandas as pd'']"
  by code_simp

lemma regex_from_names_example: "regex_from_names example_cell = [''sklearn'']"
  by code_simp

lemma walk_example: "concat (map node_imports (walk example_tree)) = [''pandas'', ''sklearn'']"
  by code_simp

lemma regex_import_names_magic: "regex_import_names magic_cell = [''numpy as np'']"
  by code_simp

lemma regex_from_names_magic: "regex_from_names magic_cell = []"
  by code_simp

text \<open>
  Claim C2. The specification wants the structural path and the fallback path to give
  the same top-level identifiers on a source that parses, \<open>pandas\<close> and \<open>sklearn\<close> for
  its example cell. On that cell the walk over the tree gives these two, but the fallback
  scanner keeps the alias clause: its first identifier is \<open>pandas as pd\<close>. The same
  happens on a cell that does reach the fallback, one with a magic line before an
  aliased import.
\<close>

theorem regex_path_keeps_alias:
  "extract_imports (\<lambda>code. Raised SyntaxError) example_cell = Inr {''pandas as pd'', ''sklearn''}
   \<and> extract_imports (\<lambda>code. Parsed example_tree) example_cell = Inr {''pandas'', ''sklearn''}
   \<and> extract_imports_regex example_cell \<noteq> {''pandas'', ''sklearn''}
   \<and> extract_imports (\<lambda>code. Raised SyntaxError) magic_cell = Inr {''numpy as np''}"
proof -
  have m: "extract_imports (\<lambda>code. Raised SyntaxError) magic_cell = Inr {''numpy as np''}"
    by (simp add: extract_imports_def extract_imports_regex_def regex_import_names_magic
        regex_from_names_magic)
  have r: "extract_imports_regex example_cell = {''pandas as pd'', ''sklearn''}"
    by (simp add: extract_imports_regex_def regex_import_names_example regex_from_names_example
        insert_commute)
  have a: "extract_imports (\<lambda>code. Parsed example_tree) example_cell = Inr {''pandas'', ''sklearn''}"
    by (simp add: extract_imports_def walk_example)
  have "''pandas as pd'' \<notin> {''pandas'', ''sklearn''}"
    by simp
  with r have "extract_imports_regex example_cell \<noteq> {''pandas'', ''sklearn''}"
    by (metis insertI1)
  with r a m show ?thesis
    by (simp add: extract_imports_def)
qed

section \<open>The aggregation loop\<close>

lemma finite_extract_imports: "extract_imports parse code = Inr S \<Longrightarrow> finite S"
  by (auto simp add: extract_imports_def extract_imports_regex_def
      split: parse_result.splits py_error.splits)

lemma extract_imports_Inl:
  "extract_imports parse code = Inl e \<longleftrightarrow> parse code = Raised e \<and> e \<noteq> SyntaxError"
  by (auto simp add: extract_imports_def split: parse_result.splits py_error.splits)

lemma collect_imports_Inr_iff:
  "collect_imports parse cells A = Inr B \<longleftrightarrow>
     (\<forall>cell\<in>set cells. cell_type cell = ''code'' \<longrightarrow> (\<exists>S. extract_imports parse (source cell) = Inr S))
     \<and> B = A \<union> (\<Union>cell\<in>{cell \<in> set cells. cell_type cell = ''code''}. imports_of parse cell)"
proof (induction cells arbitrary: A)
  case Nil
  then show ?case by auto
next
  case (Cons cell cells)
  show ?case
  proof (cases "cell_type cell = ''code''")
    case False
    then show ?thesis
      using Cons.IH [of A] by auto
  next
    case True
    show ?thesis
    proof (cases "extract_imports parse (source cell)")
      case (Inl e)
      with True show ?thesis by auto
    next
      case (Inr S)
      with True show ?thesis
        using Cons.IH [of "A \<union> S"] by (auto simp add: imports_of_def)
    qed
  qed
qed


lemma finite_collect_imports:
  assumes "collect_imports parse cells A = Inr B" and "finite A"
  shows "finite B"
proof -
  have "finite (imports_of parse cell)" for cell :: "'a parsed_cell"
    by (cases "extract_imports parse (source cell)")
       (simp_all add: imports_of_def finite_extract_imports)
  with assms show ?thesis
    by (simp add: collect_imports_Inr_iff)
qed

lemma analyze_dependencies_Inr:
  "analyze_dependencies H parse cells = Inr report \<longleftrightarrow>
     (\<exists>all_imports. collect_imports parse cells {} = Inr all_imports
        \<and> report = \<lparr> all_dependencies = all_imports,
                       categorized =
                         map (\<lambda>(cat, check_func). (cat, {lib \<in> all_imports. check_func lib}))
                             (import_patterns H),
                       requirements = generate_requirements all_imports \<rparr>)"
  by (auto simp add: analyze_dependencies_def split: sum.splits)

lemma analyze_dependencies_cong:
  "collect_imports parse cells' {} = collect_imports parse cells {}
   \<Longrightarrow> analyze_dependencies H parse cells' = analyze_dependencies H parse cells"
  by (simp add: analyze_dependencies_def)

lemma collect_imports_append:
  "collect_imports parse (xs @ ys) A =
     (case collect_imports parse xs A of Inl e \<Rightarrow> Inl e | Inr A' \<Rightarrow> collect_imports parse ys A')"
  by (induction xs arbitrary: A) (simp_all split: sum.splits)

lemma collect_imports_skip:
  assumes "cell_type cell = ''code''" and "extract_imports parse (source cell) = Inr {}"
  shows "collect_imports parse (before @ cell # after) A = collect_imports parse (before @ after) A"
  using assms by (simp add: collect_imports_append split: sum.splits)

section \<open>Failure of a cell\<close>

text \<open>
  Claim C3, as stated, says that no exception leaves import extraction for any cell
  source. The method catches \<open>SyntaxError\<close> only: when the parser raises another
  exception, as it does with \<open>RecursionError\<close> on a very deep expression, the exception
  leaves the method and ends the loop over the cells.
\<close>

theorem parser_exception_propagates:
  "extract_imports (\<lambda>code. Raised RecursionError) deep_source = Inl RecursionError
   \<and> collect_imports (\<lambda>code. if code = deep_source then Raised RecursionError else Raised SyntaxError)
        [\<lparr> cell_type = ''code'', source = deep_source, metadata = ([] :: (string \<times> unit) list),
            outputs = [], category = ''general_code'' \<rparr>,
         \<lparr> cell_type = ''code'', source = ''import numpy'', metadata = [],
            outputs = [], category = ''imports'' \<rparr>] {}
       = Inl RecursionError"
  by (simp add: extract_imports_def)

text \<open>
  Claim C3, amended. A cell whose source raises \<open>SyntaxError\<close> in the parser and matches
  neither fallback pattern yields the empty identifier set; a \<open>SyntaxError\<close> never leaves
  import extraction, which then returns what the fallback scanner finds: the only
  exceptions that leave it are those of the parser that are not a \<open>SyntaxError\<close>. A code
  cell that yields the empty set changes nothing in the analysis of the other cells.
\<close>

theorem syntax_error_recovered_locally:
  "(parse code = Raised SyntaxError \<and> findall import_pattern None code = []
      \<and> findall from_pattern None code = []
    \<longrightarrow> extract_imports parse code = Inr {})
   \<and> (parse code = Raised SyntaxError \<longrightarrow> extract_imports parse code = Inr (extract_imports_regex code))
   \<and> (\<forall>e. extract_imports parse code = Inl e \<longrightarrow> parse code = Raised e \<and> e \<noteq> SyntaxError)
   \<and> (cell_type cell = ''code'' \<and> extract_imports parse (source cell) = Inr {}
        \<longrightarrow> analyze_dependencies H parse (before @ cell # after)
            = analyze_dependencies H parse (before @ after))"
proof -
  have empty: "parse code = Raised SyntaxError \<and> findall import_pattern None code = []
      \<and> findall from_pattern None code = []
    \<longrightarrow> extract_imports parse code = Inr {}"
    by (simp add: extract_imports_def extract_imports_regex_def regex_import_names_def
        regex_from_names_def)
  have fallback: "parse code = Raised SyntaxError
    \<longrightarrow> extract_imports parse code = Inr (extract_imports_regex code)"
    by (simp add: extract_imports_def)
  have local: "cell_type cell = ''code'' \<and> extract_imports parse (source cell) = Inr {}
        \<longrightarrow> analyze_dependencies H parse (before @ cell # after)
            = analyze_dependencies H parse (before @ after)"
    using collect_imports_skip [of cell parse before after "{}"]
    by (auto intro: analyze_dependencies_cong)
  from empty fallback local show ?thesis
    by (simp add: extract_imports_Inl)
qed

lemma findall_stray: "findall import_pattern None ''?'' = []" "findall from_pattern None ''?'' = []"
  by code_simp+

theorem syntax_error_recovered_locally_witness:
  "findall import_pattern None ''?'' = [] \<and> findall from_pattern None ''?'' = []
   \<and> extract_imports (\<lambda>code. Raised SyntaxError) ''?'' = Inr {}
   \<and> analyze_dependencies \<lparr> is_standard_lib = (\<lambda>lib. lib = ''os''), is_data_science_lib = (\<lambda>lib. lib = ''numpy''),
          is_ml_framework = (\<lambda>lib. False), is_visualization_lib = (\<lambda>lib. False) \<rparr>
        (\<lambda>code. Raised SyntaxError)
        ([\<lparr> cell_type = ''code'', source = ''import numpy'', metadata = ([] :: (string \<times> unit) list),
            outputs = [], category = ''imports'' \<rparr>]
         @ \<lparr> cell_type = ''code'', source = ''?'', metadata = [], outputs = [], category = ''general_code'' \<rparr>
         # [\<lparr> cell_type = ''code'', source = ''import os'', metadata = [], outputs = [], category = ''imports'' \<rparr>])
     = analyze_dependencies \<lparr> is_standard_lib = (\<lambda>lib. lib = ''os''), is_data_science_lib = (\<lambda>lib. lib = ''numpy''),
          is_ml_framework = (\<lambda>lib. False), is_visualization_lib = (\<lambda>lib. False) \<rparr>
        (\<lambda>code. Raised SyntaxError)
        ([\<lparr> cell_type = ''code'', source = ''import numpy'', metadata = ([] :: (string \<times> unit) list),
            outputs = [], category = ''imports'' \<rparr>]
         @ [\<lparr> cell_type = ''code'', source = ''import os'', metadata = [], outputs = [], category = ''imports'' \<rparr>])"
proof -
  let ?parse = "\<lambda>code :: string. Raised SyntaxError"
  let ?cell = "\<lparr> cell_type = ''code'', source = ''?'', metadata = ([] :: (string \<times> unit) list),
           outputs = [], category = ''general_code'' \<rparr>"
  note t = syntax_error_recovered_locally
    [of ?parse "''?''" ?cell
        "\<lparr> is_standard_lib = (\<lambda>lib. lib = ''os''), is_data_science_lib = (\<lambda>lib. lib = ''numpy''),
          is_ml_framework = (\<lambda>lib. False), is_visualization_lib = (\<lambda>lib. False) \<rparr>"
        "[\<lparr> cell_type = ''code'', source = ''import numpy'', metadata = ([] :: (string \<times> unit) list),
            outputs = [], category = ''imports'' \<rparr>]"
        "[\<lparr> cell_type = ''code'', source = ''import os'', metadata = ([] :: (string \<times> unit) list),
            outputs = [], category = ''imports'' \<rparr>]"]
  have h: "?parse ''?'' = Raised SyntaxError \<and> findall import_pattern None ''?'' = []
      \<and> findall from_pattern None ''?'' = []"
    by (simp only: findall_stray simp_thms)
  have e: "extract_imports ?parse ''?'' = Inr {}"
    by (rule t [THEN conjunct1, THEN mp, OF h])
  have c: "cell_type ?cell = ''code'' \<and> extract_imports ?parse (source ?cell) = Inr {}"
    using e by simp
  note skip = t [THEN conjunct2, THEN conjunct2, THEN conjunct2, THEN mp, OF c]
  from h e skip show ?thesis
    by (intro conjI) (simp_all only: simp_thms)
qed

section \<open>The identifier set\<close>





section \<open>The dependency report\<close>

lemma collect_imports_error:
  "collect_imports parse cells A = Inl e \<Longrightarrow> e \<noteq> SyntaxError"
proof (induction cells arbitrary: A)
  case Nil
  then show ?case by simp
next
  case (Cons cell cells)
  then show ?case
    by (auto simp add: extract_imports_Inl split: if_splits sum.splits)
qed

text \<open>
  Claim C1, as stated, has \<open>analyze_dependencies\<close> return a report for every cell
  sequence. The loop over the cells calls \<open>_extract_imports\<close>, which catches
  \<open>SyntaxError\<close> only: when the parser raises another exception on a code cell, the
  analysis ends with that exception and there is no report.
\<close>

theorem analysis_aborts_on_parser_exception:
  "analyze_dependencies
     \<lparr> is_standard_lib = (\<lambda>lib. lib = ''os''), is_data_science_lib = (\<lambda>lib. lib = ''numpy''),
       is_ml_framework = (\<lambda>lib. False), is_visualization_lib = (\<lambda>lib. False) \<rparr>
     (\<lambda>code. if code = deep_source then Raised RecursionError else Raised SyntaxError)
     [\<lparr> cell_type = ''code'', source = ''import os'', metadata = ([] :: (string \<times> unit) list),
         outputs = [], category = ''imports'' \<rparr>,
      \<lparr> cell_type = ''code'', source = deep_source, metadata = [],
         outputs = [], category = ''general_code'' \<rparr>]
   = Inl RecursionError"
proof -
  have "''import os'' \<noteq> deep_source"
  proof
    assume "''import os'' = deep_source"
    then have "hd ''import os'' = hd deep_source"
      by (rule arg_cong)
    then have "CHR ''i'' = CHR ''1''"
      by (simp only: deep_source_def list.sel)
    then show False
      by simp
  qed
  then show ?thesis
    by (simp add: analyze_dependencies_def extract_imports_def)
qed

text \<open>
  Claim C1, amended. For every cell sequence on which the parser raises nothing but
  \<open>SyntaxError\<close>, \<open>analyze_dependencies\<close> returns a report, and when the parser raises
  another exception on a code cell it returns none. A report maps each of the four
  fixed category names, in the order of \<open>import_patterns\<close>, to the identifiers of
  \<open>all_dependencies\<close> that satisfy the predicate of the category, and its requirements
  are the identifiers of \<open>all_dependencies\<close>, each once and with nothing added to it.
\<close>

theorem dependency_report_fields:
  "(\<forall>report. analyze_dependencies H parse cells = Inr report \<longrightarrow>
       categorized report
         = [(''standard_lib'', {lib \<in> all_dependencies report. is_standard_lib H lib}),
            (''data_science'', {lib \<in> all_dependencies report. is_data_science_lib H lib}),
            (''ml_frameworks'', {lib \<in> all_dependencies report. is_ml_framework H lib}),
            (''visualization'', {lib \<in> all_dependencies report. is_visualization_lib H lib})]
       \<and> set (requirements report) = all_dependencies report
       \<and> distinct (requirements report))
   \<and> ((\<forall>cell\<in>set cells. cell_type cell = ''code'' \<longrightarrow>
          (\<forall>e. parse (source cell) = Raised e \<longrightarrow> e = SyntaxError))
       \<longrightarrow> (\<exists>report. analyze_dependencies H parse cells = Inr report))
   \<and> ((\<exists>cell\<in>set cells. cell_type cell = ''code''
          \<and> (\<exists>e. parse (source cell) = Raised e \<and> e \<noteq> SyntaxError))
       \<longrightarrow> (\<exists>e. analyze_dependencies H parse cells = Inl e \<and> e \<noteq> SyntaxError))"
proof -
  have fields: "categorized report
         = [(''standard_lib'', {lib \<in> all_dependencies report. is_standard_lib H lib}),
            (''data_science'', {lib \<in> all_dependencies report. is_data_science_lib H lib}),
            (''ml_frameworks'', {lib \<in> all_dependencies report. is_ml_framework H lib}),
            (''visualization'', {lib \<in> all_dependencies report. is_visualization_lib H lib})]
       \<and> set (requirements report) = all_dependencies report
       \<and> distinct (requirements report)"
    if r: "analyze_dependencies H parse cells = Inr report" for report
  proof -
    from r obtain all_imports where c: "collect_imports parse cells {} = Inr all_imports"
      and rep: "report = \<lparr> all_dependencies = all_imports,
                       categorized =
                         map (\<lambda>(cat, check_func). (cat, {lib \<in> all_imports. check_func lib}))
                             (import_patterns H),
                       requirements = generate_requirements all_imports \<rparr>"
      by (auto simp add: analyze_dependencies_Inr)
    have "finite all_imports"
      using finite_collect_imports [OF c] by simp
    with rep show ?thesis
      by (simp add: import_patterns_def generate_requirements_def)
  qed
  have returns: "\<exists>report. analyze_dependencies H parse cells = Inr report"
    if ok: "\<forall>cell\<in>set cells. cell_type cell = ''code'' \<longrightarrow>
          (\<forall>e. parse (source cell) = Raised e \<longrightarrow> e = SyntaxError)"
  proof -
    have "\<exists>S. extract_imports parse (source cell) = Inr S"
      if "cell \<in> set cells" "cell_type cell = ''code''" for cell
    proof (cases "extract_imports parse (source cell)")
      case (Inl e)
      then have "parse (source cell) = Raised e" "e \<noteq> SyntaxError"
        by (simp_all add: extract_imports_Inl)
      with ok that show ?thesis by blast
    next
      case (Inr S)
      then show ?thesis by blast
    qed
    then have "\<exists>B. collect_imports parse cells {} = Inr B"
      by (simp add: collect_imports_Inr_iff)
    then show ?thesis
      by (auto simp add: analyze_dependencies_def)
  qed
  have aborts: "\<exists>e. analyze_dependencies H parse cells = Inl e \<and> e \<noteq> SyntaxError"
    if bad: "\<exists>cell\<in>set cells. cell_type cell = ''code''
          \<and> (\<exists>e. parse (source cell) = Raised e \<and> e \<noteq> SyntaxError)"
  proof -
    from bad obtain cell e where cell: "cell \<in> set cells" "cell_type cell = ''code''"
      and e: "extract_imports parse (source cell) = Inl e"
      by (auto simp add: extract_imports_Inl)
    have "collect_imports parse cells {} \<noteq> Inr B" for B
      using cell e by (auto simp add: collect_imports_Inr_iff)
    then obtain e' where e': "collect_imports parse cells {} = Inl e'"
      by (cases "collect_imports parse cells {}") auto
    have "e' \<noteq> SyntaxError"
      using e' by (rule collect_imports_error)
    with e' show ?thesis
      by (simp add: analyze_dependencies_def)
  qed
  show ?thesis
  proof (intro conjI)
    show "(\<exists>cell\<in>set cells. cell_type cell = ''code''
          \<and> (\<exists>e. parse (source cell) = Raised e \<and> e \<noteq> SyntaxError))
       \<longrightarrow> (\<exists>e. analyze_dependencies H parse cells = Inl e \<and> e \<noteq> SyntaxError)"
      by (intro impI) (rule aborts)
    show "\<forall>report. analyze_dependencies H parse cells = Inr report \<longrightarrow>
       categorized report
         = [(''standard_lib'', {lib \<in> all_dependencies report. is_standard_lib H lib}),
            (''data_science'', {lib \<in> all_dependencies report. is_data_science_lib H lib}),
            (''ml_frameworks'', {lib \<in> all_dependencies report. is_ml_framework H lib}),
            (''visualization'', {lib \<in> all_dependencies report. is_visualization_lib H lib})]
       \<and> set (requirements report) = all_dependencies report
       \<and> distinct (requirements report)"
      by (intro allI impI) (rule fields)
    show "(\<forall>cell\<in>set cells. cell_type cell = ''code'' \<longrightarrow>
          (\<forall>e. parse (source cell) = Raised e \<longrightarrow> e = SyntaxError))
       \<longrightarrow> (\<exists>report. analyze_dependencies H parse cells = Inr report)"
      by (intro impI) (rule returns)
  qed
qed

lemma regex_import_os_numpy: "regex_import_names ''import os, numpy'' = [''os'', ''numpy'']"
  by code_simp

lemma regex_from_os_numpy: "regex_from_names ''import os, numpy'' = []"
  by code_simp

theorem dependency_report_fields_witness:
  "\<exists>report.
     analyze_dependencies
       \<lparr> is_standard_lib = (\<lambda>lib. lib = ''os''), is_data_science_lib = (\<lambda>lib. lib = ''numpy''),
         is_ml_framework = (\<lambda>lib. False), is_visualization_lib = (\<lambda>lib. False) \<rparr>
       (\<lambda>code. Raised SyntaxError)
       [\<lparr> cell_type = ''code'', source = ''import os, numpy'', metadata = ([] :: (string \<times> unit) list),
           outputs = [], category = ''imports'' \<rparr>] = Inr report
     \<and> all_dependencies report = {''os'', ''numpy''}
     \<and> categorized report
         = [(''standard_lib'', {''os''}), (''data_science'', {''numpy''}),
            (''ml_frameworks'', {}), (''visualization'', {})]
     \<and> set (requirements report) = {''os'', ''numpy''}
     \<and> distinct (requirements report)"
proof -
  let ?parse = "\<lambda>code :: string. Raised SyntaxError"
  let ?H = "\<lparr> is_standard_lib = (\<lambda>lib. lib = ''os''), is_data_science_lib = (\<lambda>lib. lib = ''numpy''),
            is_ml_framework = (\<lambda>lib. False), is_visualization_lib = (\<lambda>lib. False) \<rparr>"
  let ?c = "\<lparr> cell_type = ''code'', source = ''import os, numpy'', metadata = ([] :: (string \<times> unit) list),
              outputs = [], category = ''imports'' \<rparr>"
  note t = dependency_report_fields [of ?H ?parse "[?c]"]
  have h: "\<forall>cell\<in>set [?c]. cell_type cell = ''code'' \<longrightarrow>
          (\<forall>e. ?parse (source cell) = Raised e \<longrightarrow> e = SyntaxError)"
    by simp
  from t [THEN conjunct2, THEN conjunct1, THEN mp, OF h] obtain report where
    r: "analyze_dependencies ?H ?parse [?c] = Inr report"
    by blast
  have e: "extract_imports ?parse ''import os, numpy'' = Inr {''os'', ''numpy''}"
    by (simp add: extract_imports_def extract_imports_regex_def regex_import_os_numpy
        regex_from_os_numpy)
  have a: "all_dependencies report = {''os'', ''numpy''}"
    using r e by (auto simp add: analyze_dependencies_def)
  note f = t [THEN conjunct1, THEN spec, THEN mp, OF r]
  have cat: "categorized report
         = [(''standard_lib'', {''os''}), (''data_science'', {''numpy''}),
            (''ml_frameworks'', {}), (''visualization'', {})]"
    using f [THEN conjunct1] by (auto simp add: a)
  have req: "set (requirements report) = {''os'', ''numpy''}" "distinct (requirements report)"
    using f [THEN conjunct2] by (simp_all add: a)
  from r a cat req show ?thesis
    by blast
qed

section \<open>The main module\<close>

lemma map_of_value_map:
  "map_of (map (\<lambda>(k, v). if k = key then (k, f v) else (k, v)) d) k'
     = (if k' = key then map_option f (map_of d k') else map_of d k')"
  by (induction d) auto

lemma map_of_categorize_step:
  "map_of (categorize_step d cell) k
     = (if k = category cell then Some (get_default (map_of d k) [] @ [cell]) else map_of d k)"
proof (cases "category cell \<in> set (map fst d)")
  case True
  then obtain cs where "map_of d (category cell) = Some cs"
    by (metis map_of_eq_None_iff not_None_eq set_map)
  with True show ?thesis
    by (simp add: categorize_step_def Let_def map_of_value_map get_default_def)
next
  case False
  then have "map_of d (category cell) = None"
    by (simp add: map_of_eq_None_iff)
  with False show ?thesis
    by (auto simp add: categorize_step_def Let_def map_of_value_map get_default_def map_add_def
        split: option.splits)
qed

lemma categorize_cells_snoc:
  "categorize_cells (cells @ [cell]) = categorize_step (categorize_cells cells) cell"
  by (simp add: categorize_cells_def)

lemma map_of_categorize_cells:
  "map_of (categorize_cells cells) cat
     = (if cells_of cat cells = [] then None else Some (cells_of cat cells))"
proof (induction cells rule: rev_induct)
  case Nil
  then show ?case by (simp add: categorize_cells_def cells_of_def)
next
  case (snoc cell cells)
  then show ?case
    by (auto simp add: categorize_cells_snoc map_of_categorize_step cells_of_def get_default_def
        split: if_splits)
qed

lemma add_category_block:
  "add_category (categorize_cells cells) lines cat = lines @ category_block cells cat"
  by (simp add: add_category_def category_block_def map_of_categorize_cells)

lemma foldl_add_category:
  "foldl (add_category (categorize_cells cells)) lines cats
     = lines @ concat (map (category_block cells) cats)"
  by (induction cats arbitrary: lines) (simp_all add: add_category_block)

lemma main_script_blocks:
  "generate_main_script (categorize_cells cells)
     = py_join [CHR 0x0A]
         (main_header @ imports_block cells @ main_def
          @ concat (map (category_block cells) execution_categories) @ main_guard)"
  by (simp add: generate_main_script_def Let_def foldl_add_category map_of_categorize_cells
      imports_block_def)

lemma category_labels:
  "map category_label execution_categories
     = [''    # Data Processing'', ''    # Model Training'', ''    # Visualization'',
        ''    # General Code'']"
  by code_simp

lemma py_split_not_Nil: "py_split c s \<noteq> []"
  by (cases s) (simp_all split: list.split)

lemma py_split_no_sep: "seg \<in> set (py_split c s) \<Longrightarrow> c \<notin> set seg"
proof (induction s arbitrary: seg)
  case Nil
  then show ?case by simp
next
  case (Cons x s)
  then show ?case
    by (cases "py_split c s") (auto split: if_splits)
qed

lemma py_split_no_occurrence: "c \<notin> set s \<Longrightarrow> py_split c s = [s]"
  by (induction s) auto

lemma py_split_append_sep:
  "c \<notin> set l \<Longrightarrow> py_split c (l @ c # s) = l # py_split c s"
  by (induction l) auto

lemma py_split_join:
  "ls \<noteq> [] \<Longrightarrow> \<forall>l\<in>set ls. c \<notin> set l \<Longrightarrow> py_split c (py_join [c] ls) = ls"
proof (induction "[c]" ls rule: py_join.induct)
  case 1
  then show ?case by simp
next
  case (2 x)
  then show ?case by (simp add: py_split_no_occurrence)
next
  case (3 x y xs)
  then show ?case by (simp add: py_split_append_sep)
qed

lemma py_join_split: "py_join [c] (py_split c s) = s"
proof (induction s)
  case Nil
  then show ?case by simp
next
  case (Cons x s)
  show ?case
  proof (cases "py_split c s")
    case Nil
    with py_split_not_Nil show ?thesis by blast
  next
    case (Cons seg segs)
    with Cons.IH show ?thesis
      by (cases segs) auto
  qed
qed

lemma indent_code_lines:
  "py_split CHR 0x0A (indent_code src) = map (\<lambda>line. ''    '' @ line) (py_split CHR 0x0A src)"
  unfolding indent_code_def
  by (rule py_split_join) (auto simp add: py_split_not_Nil dest: py_split_no_sep)

text \<open>
  Claim C5, as stated, gives each of the four categories a labeling comment. The loop
  over \<open>execution_categories\<close> skips a category that is not a key of the dictionary:
  for a document with one visualization cell the main module has the comment of that
  category and of no other.
\<close>

theorem absent_category_has_no_label:
  "\<not> py_in ''# Data Processing''
       (generate_main_script (categorize_cells
          [\<lparr> cell_type = ''code'', source = ''plt.plot(x)'', metadata = ([] :: (string \<times> unit) list),
              outputs = [], category = ''visualization'' \<rparr>]))
   \<and> \<not> py_in ''# Model Training''
       (generate_main_script (categorize_cells
          [\<lparr> cell_type = ''code'', source = ''plt.plot(x)'', metadata = ([] :: (string \<times> unit) list),
              outputs = [], category = ''visualization'' \<rparr>]))
   \<and> \<not> py_in ''# General Code''
       (generate_main_script (categorize_cells
          [\<lparr> cell_type = ''code'', source = ''plt.plot(x)'', metadata = ([] :: (string \<times> unit) list),
              outputs = [], category = ''visualization'' \<rparr>]))
   \<and> py_in ''# Visualization''
       (generate_main_script (categorize_cells
          [\<lparr> cell_type = ''code'', source = ''plt.plot(x)'', metadata = ([] :: (string \<times> unit) list),
              outputs = [], category = ''visualization'' \<rparr>]))"
  by code_simp

text \<open>
  Claim C5, amended. The main module is the fixed header, then the source of every
  imports cell as it is and in document order, then the opening of the function
  \<open>main\<close>, then, for each of the categories \<open>data_processing\<close>, \<open>model_training\<close>,
  \<open>visualization\<close>, \<open>general_code\<close> in this order that has at least one cell, the
  labeling comment of the category and its cells in document order, every line of a
  cell (blank lines too) behind four spaces, and at the end the call of \<open>main\<close> under the
  test that the module is the top-level program. A category without a cell adds nothing.
\<close>

theorem main_script_structure:
  "generate_main_script (categorize_cells cells)
     = py_join [CHR 0x0A]
         (main_header @ imports_block cells @ main_def
          @ concat (map (category_block cells) execution_categories) @ main_guard)
   \<and> execution_categories = [''data_processing'', ''model_training'', ''visualization'', ''general_code'']
   \<and> map category_label execution_categories
         = [''    # Data Processing'', ''    # Model Training'', ''    # Visualization'',
            ''    # General Code'']
   \<and> py_split CHR 0x0A (indent_code src) = map (\<lambda>line. ''    '' @ line) (py_split CHR 0x0A src)
   \<and> main_guard = [[CHR 0x0A] @ ''if __name__ == '' @ [CHR 0x22] @ ''__main__'' @ [CHR 0x22] @ '':'',
                     ''    main()'']"
  using main_script_blocks [of cells] category_labels indent_code_lines [of src]
  by (simp add: execution_categories_def main_guard_def)

lemma indent_examples:
  "indent_code ''plt.plot(x)'' = ''    plt.plot(x)''"
  "indent_code (''df = clean(df)'' @ [CHR 0x0A, CHR 0x0A] @ ''df.head()'')
     = ''    df = clean(df)'' @ [CHR 0x0A] @ ''    '' @ [CHR 0x0A] @ ''    df.head()''"
  "indent_code ''model.fit(df)'' = ''    model.fit(df)''"
  by code_simp+

theorem main_script_structure_witness:
  "generate_main_script (categorize_cells
      [\<lparr> cell_type = ''code'', source = ''plt.plot(x)'', metadata = ([] :: (string \<times> unit) list),
          outputs = [], category = ''visualization'' \<rparr>,
       \<lparr> cell_type = ''code'', source = ''import pandas'', metadata = [],
          outputs = [], category = ''imports'' \<rparr>,
       \<lparr> cell_type = ''code'', source = ''df = clean(df)'' @ [CHR 0x0A, CHR 0x0A] @ ''df.head()'',
          metadata = [], outputs = [], category = ''data_processing'' \<rparr>,
       \<lparr> cell_type = ''code'', source = ''model.fit(df)'', metadata = [],
          outputs = [], category = ''model_training'' \<rparr>])
   = py_join [CHR 0x0A]
      (main_header
       @ [''import pandas'', [CHR 0x0A]]
       @ main_def
       @ [''    # Data Processing'',
          ''    df = clean(df)'' @ [CHR 0x0A] @ ''    '' @ [CHR 0x0A] @ ''    df.head()'',
          [],
          ''    # Model Training'',
          ''    model.fit(df)'',
          [],
          ''    # Visualization'',
          ''    plt.plot(x)'',
          []]
       @ main_guard)"
proof -
  let ?cells = "[\<lparr> cell_type = ''code'', source = ''plt.plot(x)'', metadata = ([] :: (string \<times> unit) list),
          outputs = [], category = ''visualization'' \<rparr>,
       \<lparr> cell_type = ''code'', source = ''import pandas'', metadata = [],
          outputs = [], category = ''imports'' \<rparr>,
       \<lparr> cell_type = ''code'', source = ''df = clean(df)'' @ [CHR 0x0A, CHR 0x0A] @ ''df.head()'',
          metadata = [], outputs = [], category = ''data_processing'' \<rparr>,
       \<lparr> cell_type = ''code'', source = ''model.fit(df)'', metadata = [],
          outputs = [], category = ''model_training'' \<rparr>]"
  note t = main_script_structure [of ?cells "[]", THEN conjunct1]
  have labels: "category_label ''data_processing'' = ''    # Data Processing''"
    "category_label ''model_training'' = ''    # Model Training''"
    "category_label ''visualization'' = ''    # Visualization''"
    using category_labels by (simp_all add: execution_categories_def)
  have i: "imports_block ?cells = [''import pandas'', [CHR 0x0A]]"
    by (simp add: imports_block_def cells_of_def)
  have b: "concat (map (category_block ?cells) execution_categories)
     = [''    # Data Processing'',
          ''    df = clean(df)'' @ [CHR 0x0A] @ ''    '' @ [CHR 0x0A] @ ''    df.head()'',
          [],
          ''    # Model Training'',
          ''    model.fit(df)'',
          [],
          ''    # Visualization'',
          ''    plt.plot(x)'',
          []]"
    using indent_examples
    by (simp add: execution_categories_def category_block_def cells_of_def labels)
  show ?thesis
    unfolding t i b ..
qed

end
